theory Spec2Isabelle
  imports Main "HOL-Library.Word" "HOL-Library.Monad_Syntax" "HOL-Library.Sublist"
begin

unbundle bit_operations_syntax

section \<open>JavaScript values\<close>

text \<open>
  Values that cross the HTTP boundary are parsed JSON, and the client stores some of them
  untyped (\<open>accessToken\<close>, \<open>accountId\<close>, \<open>txnState\<close>). They are modelled by one datatype
  of JavaScript values. A string stands for its UTF-8 bytes; numbers are restricted to
  integers, and the one place where the source can produce \<open>NaN\<close> (\<open>tokenExpiry\<close>) uses
  an option type. An object is the list of its properties, each key once, as
  \<open>JSON.parse\<close> leaves it.
\<close>

datatype jsval =
    JUndefined
  | JNull
  | JBool bool
  | JNum int
  | JStr string
  | JArr "jsval list"
  | JObj "(string \<times> jsval) list"

text \<open>Truthiness, as used by \<open>!\<close>, \<open>&&\<close>, \<open>||\<close> and \<open>? :\<close>.\<close>

fun truthy :: "jsval \<Rightarrow> bool" where
  "truthy JUndefined = False"
| "truthy JNull = False"
| "truthy (JBool b) = b"
| "truthy (JNum n) = (n \<noteq> 0)"
| "truthy (JStr s) = (s \<noteq> [])"
| "truthy (JArr _) = True"
| "truthy (JObj _) = True"

section \<open>The signer\<close>

subsection \<open>SHA-256 and HMAC, the primitives behind \<open>crypto.createHmac("sha256", key)\<close>\<close>

text \<open>
  \<open>crypto\<close> is a built-in of the runtime. Its HMAC-SHA256 is transcribed from FIPS 180-4
  (SHA-256) and RFC 2104 (HMAC, block size 64 bytes), on 32-bit words and bytes. The
  round constants \<open>K256\<close> are written in decimal.
\<close>

type_synonym byte = "8 word"
type_synonym u32 = "32 word"

definition rotr :: "nat \<Rightarrow> u32 \<Rightarrow> u32" where
  "rotr n x = drop_bit n x OR push_bit (32 - n) x"

definition Ch :: "u32 \<Rightarrow> u32 \<Rightarrow> u32 \<Rightarrow> u32" where
  "Ch x y z = (x AND y) XOR (NOT x AND z)"

definition Maj :: "u32 \<Rightarrow> u32 \<Rightarrow> u32 \<Rightarrow> u32" where
  "Maj x y z = (x AND y) XOR (x AND z) XOR (y AND z)"

definition Sigma0 :: "u32 \<Rightarrow> u32" where
  "Sigma0 x = rotr 2 x XOR rotr 13 x XOR rotr 22 x"

definition Sigma1 :: "u32 \<Rightarrow> u32" where
  "Sigma1 x = rotr 6 x XOR rotr 11 x XOR rotr 25 x"

definition sigma0 :: "u32 \<Rightarrow> u32" where
  "sigma0 x = rotr 7 x XOR rotr 18 x XOR drop_bit 3 x"

definition sigma1 :: "u32 \<Rightarrow> u32" where
  "sigma1 x = rotr 17 x XOR rotr 19 x XOR drop_bit 10 x"

definition K256 :: "u32 list" where
  "K256 =
    [1116352408, 1899447441, 3049323471, 3921009573, 961987163, 1508970993,
     2453635748, 2870763221, 3624381080, 310598401, 607225278, 1426881987,
     1925078388, 2162078206, 2614888103, 3248222580, 3835390401, 4022224774,
     264347078, 604807628, 770255983, 1249150122, 1555081692, 1996064986,
     2554220882, 2821834349, 2952996808, 3210313671, 3336571891, 3584528711,
     113926993, 338241895, 666307205, 773529912, 1294757372, 1396182291,
     1695183700, 1986661051, 2177026350, 2456956037, 2730485921, 2820302411,
     3259730800, 3345764771, 3516065817, 3600352804, 4094571909, 275423344,
     430227734, 506948616, 659060556, 883997877, 958139571, 1322822218,
     1537002063, 1747873779, 1955562222, 2024104815, 2227730452, 2361852424,
     2428436474, 2756734187, 3204031479, 3329325298]"

type_synonym sha_state = "u32 \<times> u32 \<times> u32 \<times> u32 \<times> u32 \<times> u32 \<times> u32 \<times> u32"

definition H256 :: sha_state where
  "H256 =
    (0x6a09e667, 0xbb67ae85, 0x3c6ef372, 0xa54ff53a, 0x510e527f, 0x9b05688c, 0x1f83d9ab, 0x5be0cd19)"

definition be32 :: "byte list \<Rightarrow> u32" where
  "be32 bs = foldl (\<lambda>acc b. push_bit 8 acc OR ucast b) 0 bs"

definition bytes_of_u32 :: "u32 \<Rightarrow> byte list" where
  "bytes_of_u32 x = [ucast (drop_bit 24 x), ucast (drop_bit 16 x), ucast (drop_bit 8 x), ucast x]"

definition length_bytes :: "nat \<Rightarrow> byte list" where
  "length_bytes n = map (\<lambda>i. ucast (drop_bit (8 * (7 - i)) (of_nat (8 * n) :: 64 word))) [0..<8]"

definition sha_pad :: "byte list \<Rightarrow> byte list" where
  "sha_pad m =
     m @ [0x80] @ replicate ((64 - (length m + 9) mod 64) mod 64) 0 @ length_bytes (length m)"

fun chunks :: "nat \<Rightarrow> nat \<Rightarrow> 'a list \<Rightarrow> 'a list list" where
  "chunks 0 n xs = []"
| "chunks (Suc k) n xs = take n xs # chunks k n (drop n xs)"

fun extend :: "nat \<Rightarrow> u32 list \<Rightarrow> u32 list" where
  "extend 0 w = w"
| "extend (Suc n) w =
     extend n (w @ [sigma1 (w ! (length w - 2)) + w ! (length w - 7)
                    + sigma0 (w ! (length w - 15)) + w ! (length w - 16)])"

definition schedule :: "byte list \<Rightarrow> u32 list" where
  "schedule block = extend 48 (map be32 (chunks 16 4 block))"

definition sha_round :: "sha_state \<Rightarrow> u32 \<times> u32 \<Rightarrow> sha_state" where
  "sha_round s kw =
     (case s of (a, b, c, d, e, f, g, h) \<Rightarrow>
        (let T1 = h + Sigma1 e + Ch e f g + fst kw + snd kw;
             T2 = Sigma0 a + Maj a b c
         in (T1 + T2, a, b, c, d + T1, e, f, g)))"

definition add_state :: "sha_state \<Rightarrow> sha_state \<Rightarrow> sha_state" where
  "add_state s t =
     (case s of (a, b, c, d, e, f, g, h) \<Rightarrow>
      case t of (a', b', c', d', e', f', g', h') \<Rightarrow>
        (a + a', b + b', c + c', d + d', e + e', f + f', g + g', h + h'))"

definition compress :: "sha_state \<Rightarrow> byte list \<Rightarrow> sha_state" where
  "compress hs block = add_state hs (foldl sha_round hs (zip K256 (schedule block)))"

definition digest_bytes :: "sha_state \<Rightarrow> byte list" where
  "digest_bytes s =
     (case s of (a, b, c, d, e, f, g, h) \<Rightarrow>
        concat (map bytes_of_u32 [a, b, c, d, e, f, g, h]))"

definition sha256 :: "byte list \<Rightarrow> byte list" where
  "sha256 m =
     (let p = sha_pad m
      in digest_bytes (foldl compress H256 (chunks (length p div 64) 64 p)))"

definition hmac_key :: "byte list \<Rightarrow> byte list" where
  "hmac_key key =
     (let k = (if length key > 64 then sha256 key else key)
      in k @ replicate (64 - length k) 0)"

definition hmac_sha256 :: "byte list \<Rightarrow> byte list \<Rightarrow> byte list" where
  "hmac_sha256 key msg =
     sha256 (map (\<lambda>b. b XOR 0x5c) (hmac_key key)
             @ sha256 (map (\<lambda>b. b XOR 0x36) (hmac_key key) @ msg))"

definition hex_digit :: "nat \<Rightarrow> char" where
  "hex_digit n = ''0123456789abcdef'' ! (n mod 16)"

definition hex :: "byte list \<Rightarrow> string" where
  "hex bs = concat (map (\<lambda>b. [hex_digit (unat b div 16), hex_digit (unat b)]) bs)"

definition utf8 :: "string \<Rightarrow> byte list" where
  "utf8 s = map of_char s"

section \<open>Strings and property access\<close>

definition digit_char :: "nat \<Rightarrow> char" where
  "digit_char n = ''0123456789'' ! (n mod 10)"

function decimal_nat :: "nat \<Rightarrow> string" where
  "decimal_nat n = (if n < 10 then [digit_char n] else decimal_nat (n div 10) @ [digit_char n])"
  by pat_completeness auto
termination
  by (relation "measure id") auto

definition decimal :: "int \<Rightarrow> string" where
  "decimal i = (if i < 0 then ''-'' @ decimal_nat (nat (- i)) else decimal_nat (nat i))"

text \<open>
  \<open>String(v)\<close>, the coercion behind template literals and the \<open>Error\<close> constructor.
  Numbers are the integers here, written in decimal; this is \<open>String(n)\<close> for integers of
  magnitude below \<open>10^21\<close>, from where JavaScript writes an exponent.
\<close>

fun to_string :: "jsval \<Rightarrow> string"
  and join_elems :: "jsval list \<Rightarrow> string" where
  "to_string JUndefined = ''undefined''"
| "to_string JNull = ''null''"
| "to_string (JBool b) = (if b then ''true'' else ''false'')"
| "to_string (JNum n) = decimal n"
| "to_string (JStr s) = s"
| "to_string (JArr xs) = join_elems xs"
| "to_string (JObj kvs) = ''[object Object]''"
| "join_elems [] = []"
| "join_elems (x # xs) =
     (if x = JUndefined \<or> x = JNull then [] else to_string x)
     @ (if xs = [] then [] else '','' @ join_elems xs)"

section \<open>Errors\<close>

text \<open>
  The classes of \<open>errors.ts\<close>, with the fields their constructors set (for
  \<open>NeutronApiError\<close>: \<open>status\<close>, \<open>code\<close>, \<open>message\<close> and \<open>body\<close>, in this order; for the
  others the message, for \<open>NeutronTimeoutError\<close> the timeout its message is made of), and
  the other values the code can throw: a plain \<open>Error\<close>, the rejections of \<open>fetch\<close> and of
  \<open>response.json()\<close>, a \<open>TypeError\<close> for a property read on \<open>null\<close> or \<open>undefined\<close>, and
  \<open>throw lastError\<close> with \<open>lastError\<close> still undefined.
\<close>

datatype error =
    NeutronApiError int jsval string jsval
  | NeutronAuthError string
  | NeutronTimeoutError int
  | NeutronValidationError string
  | Error string
  | DOMException string
  | FetchFailed string
  | SyntaxError
  | TypeError
  | Thrown_undefined

text \<open>
  \<open>v.k\<close> for the keys the code reads (\<open>error\<close>, \<open>message\<close>, \<open>code\<close>, \<open>data\<close>, \<open>accountId\<close>,
  \<open>accessToken\<close>, \<open>expiredAt\<close>, \<open>txnState\<close>): none of them is a built-in property of a
  string, number, boolean or array, so only an object can hold one. Reading from \<open>null\<close>
  or \<open>undefined\<close> throws; \<open>v?.k\<close> yields \<open>undefined\<close> there instead.
\<close>

fun get_prop :: "jsval \<Rightarrow> string \<Rightarrow> error + jsval" where
  "get_prop JUndefined k = Inl TypeError"
| "get_prop JNull k = Inl TypeError"
| "get_prop (JObj kvs) k = Inr (case map_of kvs k of None \<Rightarrow> JUndefined | Some v \<Rightarrow> v)"
| "get_prop v k = Inr JUndefined"

definition opt_prop :: "jsval \<Rightarrow> string \<Rightarrow> jsval" where
  "opt_prop v k = (case get_prop v k of Inl _ \<Rightarrow> JUndefined | Inr x \<Rightarrow> x)"

text \<open>\<open>a || b\<close> and \<open>a ?? b\<close> on values.\<close>

definition js_or :: "jsval \<Rightarrow> jsval \<Rightarrow> jsval" where
  "js_or a b = (if truthy a then a else b)"

definition nullish :: "jsval \<Rightarrow> jsval \<Rightarrow> jsval" where
  "nullish a b = (if a = JUndefined \<or> a = JNull then b else a)"

text \<open>The constructor and getters of \<open>NeutronApiError\<close>.\<close>

definition new_NeutronApiError :: "int \<Rightarrow> jsval \<Rightarrow> error" where
  "new_NeutronApiError st b =
     NeutronApiError st (opt_prop b ''code'')
       (to_string (js_or (opt_prop b ''error'')
                    (js_or (opt_prop b ''message'') (JStr (''API error '' @ decimal st)))))
       b"

fun isRateLimited :: "error \<Rightarrow> bool" where
  "isRateLimited (NeutronApiError st _ _ _) = (st = 429)"
| "isRateLimited _ = False"

fun isAuthError :: "error \<Rightarrow> bool" where
  "isAuthError (NeutronApiError st _ _ _) = (st = 401 \<or> st = 403)"
| "isAuthError _ = False"

fun isRetryable :: "error \<Rightarrow> bool" where
  "isRetryable (NeutronApiError st _ _ _) = (st = 429 \<or> st \<ge> 500)"
| "isRetryable _ = False"

section \<open>The world outside the client\<close>

text \<open>
  A call of \<open>fetch\<close> sends a request under an abort timer. \<open>rawFetch\<close> arms its timer with
  \<open>setTimeout(() => controller.abort(), this.timeout)\<close>, whose rejection is named
  \<open>AbortError\<close>; \<open>subscribe\<close> passes \<open>AbortSignal.timeout(ms)\<close>, whose rejection is named
  \<open>TimeoutError\<close>.
\<close>

datatype payload = Text string | Json jsval

datatype abort_signal = Controller_timer int | AbortSignal_timeout int

record request =
  url :: string
  http_method :: string
  headers :: "(string \<times> string) list"
  body :: "payload option"
  signal :: abort_signal

record response =
  status :: int
  statusText :: string
  json :: "jsval option"
  has_body :: bool

datatype fetch_result = Responded response | Rejected string

text \<open>
  What the program does to its environment, in order: the requests it sends, the timers
  it awaits (with the delay it asked for), the lines it writes to the diagnostic stream
  (kept as the parts the template \<open>[neutron-sdk ${ts}] ${message}${extra}\<close> is made of:
  the clock reading, the message and the data when there is any), and the calls of
  \<open>onStateChange\<close> with their two arguments.
\<close>

datatype event =
    Fetch request
  | Sleep int
  | Log int string "jsval option"
  | StateChange jsval jsval

fun is_Fetch :: "event \<Rightarrow> bool" where
  "is_Fetch (Fetch _) = True"
| "is_Fetch _ = False"


fun is_Log :: "event \<Rightarrow> bool" where
  "is_Log (Log _ _ _) = True"
| "is_Log _ = False"

fun is_StateChange :: "event \<Rightarrow> bool" where
  "is_StateChange (StateChange _ _) = True"
| "is_StateChange _ = False"

text \<open>
  The environment: the clock \<open>Date.now()\<close> in milliseconds, the network (what the k-th
  call of \<open>fetch\<close> meets: how long the answer takes and what it is), the trace of events so
  far, and \<open>new Date(v).getTime()\<close> (a built-in, \<open>None\<close> for \<open>NaN\<close>).
\<close>

record world =
  now :: int
  net :: "nat \<Rightarrow> nat \<times> fetch_result"
  trace :: "event list"
  dateParse :: "jsval \<Rightarrow> int option"

definition fetch_count :: "world \<Rightarrow> nat" where
  "fetch_count w = length (filter is_Fetch (trace w))"

definition emit :: "event \<Rightarrow> world \<Rightarrow> world" where
  "emit e w = w\<lparr>trace := trace w @ [e]\<rparr>"

text \<open>
  Timers of the runtime: a delay below 1 or above 2147483647 is set to 1 millisecond.
\<close>

definition timer_delay :: "int \<Rightarrow> int" where
  "timer_delay d = (if d < 1 \<or> d > 2147483647 then 1 else d)"

text \<open>\<open>await new Promise((r) => setTimeout(r, ms))\<close>\<close>

definition sleep :: "int \<Rightarrow> world \<Rightarrow> world" where
  "sleep ms w = (emit (Sleep ms) w)\<lparr>now := now w + timer_delay ms\<rparr>"

fun signal_delay :: "abort_signal \<Rightarrow> int" where
  "signal_delay (Controller_timer ms) = timer_delay ms"
| "signal_delay (AbortSignal_timeout ms) = ms"

fun signal_error :: "abort_signal \<Rightarrow> error" where
  "signal_error (Controller_timer ms) = DOMException ''AbortError''"
| "signal_error (AbortSignal_timeout ms) = DOMException ''TimeoutError''"

text \<open>
  \<open>fetch(url, init)\<close>: the request goes out; if the abort timer fires before the answer
  is there, the call rejects with the signal's error, else it settles as the network says.
\<close>

definition fetch :: "request \<Rightarrow> world \<Rightarrow> (error + response) \<times> world" where
  "fetch req w =
     (let (latency, outcome) = net w (fetch_count w);
          w1 = emit (Fetch req) w
      in if signal_delay (signal req) \<le> int latency
         then (Inl (signal_error (signal req)), w1\<lparr>now := now w + signal_delay (signal req)\<rparr>)
         else (case outcome of
                 Rejected m \<Rightarrow> Inl (FetchFailed m)
               | Responded r \<Rightarrow> Inr r,
               w1\<lparr>now := now w + int latency\<rparr>))"

definition ok :: "response \<Rightarrow> bool" where
  "ok r = (200 \<le> status r \<and> status r \<le> 299)"

fun error_name :: "error \<Rightarrow> string" where
  "error_name (NeutronApiError _ _ _ _) = ''NeutronApiError''"
| "error_name (NeutronAuthError _) = ''NeutronAuthError''"
| "error_name (NeutronTimeoutError _) = ''NeutronTimeoutError''"
| "error_name (NeutronValidationError _) = ''NeutronValidationError''"
| "error_name (Error _) = ''Error''"
| "error_name (DOMException n) = n"
| "error_name (FetchFailed _) = ''TypeError''"
| "error_name SyntaxError = ''SyntaxError''"
| "error_name TypeError = ''TypeError''"
| "error_name Thrown_undefined = []"

section \<open>The HTTP client\<close>

text \<open>
  \<open>HttpClient\<close> has six \<open>readonly\<close> fields, set by the constructor, and three mutable
  ones, the session. The two groups are two records, so that a method takes the client,
  the session and the world, and returns its result with the new session and world.
\<close>

record client =
  apiKey :: string
  apiSecret :: string
  baseUrl :: string
  timeout :: int
  maxRetries :: int
  debug :: bool

record session =
  accessToken :: jsval
  accountId :: jsval
  tokenExpiry :: "int option"

record NeutronConfig =
  config_apiKey :: string
  config_apiSecret :: string
  config_baseUrl :: "string option"
  config_timeout :: "int option"
  config_maxRetries :: "int option"
  config_debug :: "bool option"

definition DEFAULT_BASE_URL :: string where
  "DEFAULT_BASE_URL = ''https://api.neutron.me''"

definition DEFAULT_TIMEOUT :: int where
  "DEFAULT_TIMEOUT = 30000"

definition DEFAULT_MAX_RETRIES :: int where
  "DEFAULT_MAX_RETRIES = 2"

definition TOKEN_REFRESH_BUFFER_MS :: int where
  "TOKEN_REFRESH_BUFFER_MS = 60000"

text \<open>\<open>s.replace(/\/+$/, "")\<close>\<close>

definition strip_trailing_slashes :: "string \<Rightarrow> string" where
  "strip_trailing_slashes s = rev (dropWhile (\<lambda>c. c = CHR ''/'') (rev s))"

definition new_HttpClient :: "NeutronConfig \<Rightarrow> error + client \<times> session" where
  "new_HttpClient config =
     (if config_apiKey config = [] then Inl (NeutronAuthError ''apiKey is required'')
      else if config_apiSecret config = [] then Inl (NeutronAuthError ''apiSecret is required'')
      else Inr
        (\<lparr>apiKey = config_apiKey config,
          apiSecret = config_apiSecret config,
          baseUrl = strip_trailing_slashes
            (case config_baseUrl config of
               None \<Rightarrow> DEFAULT_BASE_URL
             | Some u \<Rightarrow> if u = [] then DEFAULT_BASE_URL else u),
          timeout = (case config_timeout config of None \<Rightarrow> DEFAULT_TIMEOUT | Some t \<Rightarrow> t),
          maxRetries =
            (case config_maxRetries config of None \<Rightarrow> DEFAULT_MAX_RETRIES | Some n \<Rightarrow> n),
          debug = (case config_debug config of None \<Rightarrow> False | Some d \<Rightarrow> d)\<rparr>,
         \<lparr>accessToken = JNull, accountId = JNull, tokenExpiry = Some 0\<rparr>))"

text \<open>
  \<open>log\<close>: nothing unless \<open>debug\<close>; else one line with the time, the message, and the data
  when it is truthy.
\<close>

definition log :: "client \<Rightarrow> string \<Rightarrow> jsval \<Rightarrow> world \<Rightarrow> world" where
  "log c msg data w =
     (if \<not> debug c then w
      else emit (Log (now w) msg (if truthy data then Some data else None)) w)"

definition generateSignature :: "client \<Rightarrow> string \<Rightarrow> string" where
  "generateSignature c payload =
     (let stringToSign = apiKey c @ ''&payload='' @ payload
      in hex (hmac_sha256 (utf8 (apiSecret c)) (utf8 stringToSign)))"

definition isTokenValid :: "session \<Rightarrow> world \<Rightarrow> bool" where
  "isTokenValid s w =
     (truthy (accessToken s) \<and> truthy (accountId s) \<and>
      (case tokenExpiry s of
         None \<Rightarrow> False
       | Some expiry \<Rightarrow> now w < expiry - TOKEN_REFRESH_BUFFER_MS))"

definition rawFetch ::
  "client \<Rightarrow> string \<Rightarrow> string \<Rightarrow> (string \<times> string) list \<Rightarrow> payload option \<Rightarrow> world
     \<Rightarrow> (error + response) \<times> world" where
  "rawFetch c u m hs b w =
     (case fetch \<lparr>url = u, http_method = m, headers = hs, body = b,
                  signal = Controller_timer (timeout c)\<rparr> w of
        (Inl err, w1) \<Rightarrow>
          (if error_name err = ''AbortError'' then Inl (NeutronTimeoutError (timeout c))
           else Inl err, w1)
      | (Inr r, w1) \<Rightarrow> (Inr r, w1))"

text \<open>\<open>JSON.stringify({ test: "auth" })\<close>\<close>

definition auth_payload :: string where
  \<open>auth_payload = ''{"test":"auth"}''\<close>

text \<open>
  \<open>authenticate\<close>. The statement \<open>this.log("Authenticated", ...)\<close> stands after
  \<open>return result\<close> in the source and is never reached, so it has no counterpart here.
  \<open>result\<close> is \<open>raw.data ?? raw\<close> where \<open>raw.data\<close> was read without an exception, so it is
  neither \<open>null\<close> nor \<open>undefined\<close> and the three reads from it cannot throw.
\<close>

definition authenticate :: "client \<Rightarrow> session \<Rightarrow> world \<Rightarrow> (error + jsval) \<times> session \<times> world" where
  "authenticate c s w =
     (let payload = auth_payload;
          signature = generateSignature c payload
      in case rawFetch c (baseUrl c @ ''/api/v2/authentication/token-signature'') ''POST''
                [(''Content-Type'', ''application/json''),
                 (''X-Api-Key'', apiKey c),
                 (''X-Api-Signature'', signature)]
                (Some (Text payload)) w of
           (Inl err, w1) \<Rightarrow> (Inl err, s, w1)
         | (Inr r, w1) \<Rightarrow>
             if \<not> ok r then
               (let b = (case json r of None \<Rightarrow> JObj [] | Some v \<Rightarrow> v)
                in case get_prop b ''error'' of
                     Inl err \<Rightarrow> (Inl err, s, w1)
                   | Inr e \<Rightarrow>
                       (Inl (NeutronAuthError
                          (to_string (js_or e (js_or (opt_prop b ''message'')
                             (JStr (''Authentication failed ('' @ decimal (status r) @ '')'')))))),
                        s, w1))
             else
               (case json r of
                  None \<Rightarrow> (Inl SyntaxError, s, w1)
                | Some raw \<Rightarrow>
                    (case get_prop raw ''data'' of
                       Inl err \<Rightarrow> (Inl err, s, w1)
                     | Inr d \<Rightarrow>
                         (let result = nullish d raw
                          in (Inr result,
                              \<lparr>accessToken = opt_prop result ''accessToken'',
                               accountId = opt_prop result ''accountId'',
                               tokenExpiry =
                                 (case opt_prop result ''expiredAt'' of
                                    JNum n \<Rightarrow> Some n
                                  | v \<Rightarrow> dateParse w1 v)\<rparr>,
                              w1)))))"

text \<open>The one request \<open>authenticate\<close> sends, named for the statements about the trace.\<close>

definition auth_request :: "client \<Rightarrow> request" where
  "auth_request c =
     \<lparr>url = baseUrl c @ ''/api/v2/authentication/token-signature'',
      http_method = ''POST'',
      headers = [(''Content-Type'', ''application/json''),
                 (''X-Api-Key'', apiKey c),
                 (''X-Api-Signature'', generateSignature c auth_payload)],
      body = Some (Text auth_payload),
      signal = Controller_timer (timeout c)\<rparr>"

definition ensureAuth :: "client \<Rightarrow> session \<Rightarrow> world \<Rightarrow> (error + unit) \<times> session \<times> world" where
  "ensureAuth c s w =
     (if \<not> isTokenValid s w then
        (case authenticate c s w of
           (Inl err, s1, w1) \<Rightarrow> (Inl err, s1, w1)
         | (Inr _, s1, w1) \<Rightarrow> (Inr (), s1, w1))
      else (Inr (), s, w))"

definition getAccountId :: "session \<Rightarrow> error + jsval" where
  "getAccountId s =
     (if \<not> truthy (accountId s)
      then Inl (NeutronAuthError
                  ''Not authenticated. Call a method first or use neutron.account.get().'')
      else Inr (accountId s))"

definition ensureAuthAndGetAccountId ::
  "client \<Rightarrow> session \<Rightarrow> world \<Rightarrow> (error + jsval) \<times> session \<times> world" where
  "ensureAuthAndGetAccountId c s w =
     (case ensureAuth c s w of
        (Inl err, s1, w1) \<Rightarrow> (Inl err, s1, w1)
      | (Inr _, s1, w1) \<Rightarrow> (Inr (accountId s1), s1, w1))"

definition getAuthHeaders ::
  "client \<Rightarrow> session \<Rightarrow> world \<Rightarrow> (error + (string \<times> string) list) \<times> session \<times> world" where
  "getAuthHeaders c s w =
     (case ensureAuth c s w of
        (Inl err, s1, w1) \<Rightarrow> (Inl err, s1, w1)
      | (Inr _, s1, w1) \<Rightarrow>
          (Inr [(''Authorization'', ''Bearer '' @ to_string (accessToken s1))], s1, w1))"

text \<open>
  The head of the loop body of \<open>request\<close> for \<open>attempt > 0\<close>: the backoff
  \<open>Math.pow(2, attempt - 1) * 1000\<close> and the re-authentication when the token is stale.
\<close>

definition backoff ::
  "client \<Rightarrow> int \<Rightarrow> session \<Rightarrow> world \<Rightarrow> (error + unit) \<times> session \<times> world" where
  "backoff c attempt s w =
     (if attempt > 0 then
        (let w1 = sleep (2 ^ nat (attempt - 1) * 1000) w
         in if \<not> isTokenValid s w1 then
              (case authenticate c s w1 of
                 (Inl err, s2, w2) \<Rightarrow> (Inl err, s2, w2)
               | (Inr _, s2, w2) \<Rightarrow> (Inr (), s2, w2))
            else (Inr (), s, w1))
      else (Inr (), s, w))"

text \<open>
  The loop \<open>for (let attempt = 0; attempt <= this.maxRetries; attempt++)\<close> of \<open>request\<close>
  with the \<open>throw lastError\<close> that follows it; \<open>lastError\<close> is \<open>None\<close> while undefined.
\<close>

function request_attempts ::
  "client \<Rightarrow> string \<Rightarrow> string \<Rightarrow> jsval \<Rightarrow> int \<Rightarrow> error option \<Rightarrow> session \<Rightarrow> world
     \<Rightarrow> (error + jsval) \<times> session \<times> world" where
  "request_attempts c m path b attempt lastError s w =
     (if attempt \<le> maxRetries c then
        (case backoff c attempt s w of
           (Inl err, s1, w1) \<Rightarrow> (Inl err, s1, w1)
         | (Inr _, s1, w1) \<Rightarrow>
             (let u = baseUrl c @ path;
                  w2 = log c (m @ '' '' @ path) JUndefined w1;
                  hs = [(''Authorization'', ''Bearer '' @ to_string (accessToken s1)),
                        (''Content-Type'', ''application/json'')]
              in case rawFetch c u m hs (if truthy b then Some (Json b) else None) w2 of
                   (Inl err, w3) \<Rightarrow> (Inl err, s1, w3)
                 | (Inr r, w3) \<Rightarrow>
                     if ok r then
                       (case json r of
                          None \<Rightarrow> (Inl SyntaxError, s1, w3)
                        | Some v \<Rightarrow> (Inr v, s1, w3))
                     else
                       (let errorBody = (case json r of None \<Rightarrow> JObj [] | Some v \<Rightarrow> v);
                            apiError = new_NeutronApiError (status r) errorBody
                        in if status r = 401 \<and> attempt < maxRetries c then
                             request_attempts c m path b (attempt + 1) (Some apiError)
                               (s1\<lparr>accessToken := JNull\<rparr>) w3
                           else if isRetryable apiError \<and> attempt < maxRetries c then
                             request_attempts c m path b (attempt + 1) (Some apiError) s1 w3
                           else (Inl apiError, s1, w3))))
      else (Inl (case lastError of None \<Rightarrow> Thrown_undefined | Some err \<Rightarrow> err), s, w))"
  by pat_completeness auto
termination
  by (relation "measure (\<lambda>(c, m, path, b, attempt, lastError, s, w). nat (maxRetries c + 1 - attempt))")
     auto

declare request_attempts.simps [simp del]

text \<open>The request an attempt sends, named for the statements about the trace.\<close>

definition api_request :: "client \<Rightarrow> string \<Rightarrow> string \<Rightarrow> jsval \<Rightarrow> session \<Rightarrow> request" where
  "api_request c m path b s =
     \<lparr>url = baseUrl c @ path,
      http_method = m,
      headers = [(''Authorization'', ''Bearer '' @ to_string (accessToken s)),
                 (''Content-Type'', ''application/json'')],
      body = (if truthy b then Some (Json b) else None),
      signal = Controller_timer (timeout c)\<rparr>"

definition request ::
  "client \<Rightarrow> string \<Rightarrow> string \<Rightarrow> jsval \<Rightarrow> session \<Rightarrow> world
     \<Rightarrow> (error + jsval) \<times> session \<times> world" where
  "request c m path b s w =
     (case ensureAuth c s w of
        (Inl err, s1, w1) \<Rightarrow> (Inl err, s1, w1)
      | (Inr _, s1, w1) \<Rightarrow> request_attempts c m path b 0 None s1 w1)"

definition get :: "client \<Rightarrow> string \<Rightarrow> session \<Rightarrow> world \<Rightarrow> (error + jsval) \<times> session \<times> world" where
  "get c path s w = request c ''GET'' path JUndefined s w"

definition post ::
  "client \<Rightarrow> string \<Rightarrow> jsval \<Rightarrow> session \<Rightarrow> world \<Rightarrow> (error + jsval) \<times> session \<times> world" where
  "post c path b s w = request c ''POST'' path b s w"

definition put ::
  "client \<Rightarrow> string \<Rightarrow> jsval \<Rightarrow> session \<Rightarrow> world \<Rightarrow> (error + jsval) \<times> session \<times> world" where
  "put c path b s w = request c ''PUT'' path b s w"

definition del :: "client \<Rightarrow> string \<Rightarrow> session \<Rightarrow> world \<Rightarrow> (error + jsval) \<times> session \<times> world" where
  "del c path s w = request c ''DELETE'' path JUndefined s w"

section \<open>Path parameters\<close>

text \<open>\<open>s.includes(sub)\<close>\<close>

definition includes_str :: "string \<Rightarrow> string \<Rightarrow> bool" where
  "includes_str s sub = list_ex (\<lambda>i. take (length sub) (drop i s) = sub) [0..<Suc (length s)]"

text \<open>The character class \<open>[a-zA-Z0-9\-_.]\<close> of \<open>sanitizePathParam\<close>.\<close>

definition path_char :: "char \<Rightarrow> bool" where
  "path_char ch =
     (ch \<in> set ''abcdefghijklmnopqrstuvwxyzABCDEFGHIJKLMNOPQRSTUVWXYZ0123456789-_.'')"

definition sanitizePathParam :: "string \<Rightarrow> string \<Rightarrow> error + string" where
  "sanitizePathParam v name =
     (if v = [] then
        Inl (NeutronValidationError (name @ '' is required and must be a non-empty string.''))
      else
        (let sanitized = filter path_char v
         in if sanitized \<noteq> v then
              Inl (NeutronValidationError
                (name @ '' contains invalid characters. Only alphanumeric, hyphens, underscores, and dots are allowed.''))
            else if includes_str sanitized ''..'' then
              Inl (NeutronValidationError (name @ '' cannot contain path traversal sequences.''))
            else Inr sanitized))"

section \<open>Constants of \<open>utils.ts\<close>\<close>

definition FinalStates :: "string list" where
  "FinalStates = [''completed'', ''expired'', ''rejected'', ''error'', ''usercanceled'']"

text \<open>The values of \<open>TransactionStates\<close>, which are those of the type \<open>TransactionState\<close>.\<close>

definition TransactionStates :: "string list" where
  "TransactionStates =
     [''quoted'', ''userconfirmed'', ''srccreated'', ''srcsent'', ''srcintent'',
      ''srcpendconfirmfill'', ''srcconfirmfilled'', ''destpendsent'', ''destsent'',
      ''completed'', ''expired'', ''rejected'', ''error'', ''usercanceled'']"

section \<open>The transactions resource\<close>

definition transactions_create ::
  "client \<Rightarrow> jsval \<Rightarrow> session \<Rightarrow> world \<Rightarrow> (error + jsval) \<times> session \<times> world" where
  "transactions_create c params s w = post c ''/api/v2/transaction'' params s w"

definition transactions_confirm ::
  "client \<Rightarrow> string \<Rightarrow> session \<Rightarrow> world \<Rightarrow> (error + jsval) \<times> session \<times> world" where
  "transactions_confirm c txnId s w =
     (case sanitizePathParam txnId ''txnId'' of
        Inl err \<Rightarrow> (Inl err, s, w)
      | Inr _ \<Rightarrow> put c (''/api/v2/transaction/'' @ txnId @ ''/confirm'') JUndefined s w)"

definition transactions_get ::
  "client \<Rightarrow> string \<Rightarrow> session \<Rightarrow> world \<Rightarrow> (error + jsval) \<times> session \<times> world" where
  "transactions_get c txnId s w =
     (case sanitizePathParam txnId ''txnId'' of
        Inl err \<Rightarrow> (Inl err, s, w)
      | Inr _ \<Rightarrow> get c (''/api/v2/transaction/'' @ txnId) s w)"

text \<open>\<open>cancel\<close> throws at once; its argument is not read.\<close>

definition transactions_cancel ::
  "client \<Rightarrow> string \<Rightarrow> session \<Rightarrow> world \<Rightarrow> (error + jsval) \<times> session \<times> world" where
  "transactions_cancel c txnId s w =
     (Inl (Error ''transactions.cancel() is not available. Unconfirmed transactions expire automatically.''),
      s, w)"

text \<open>
  \<open>a !== b\<close> negated. An array or an object taken from a parsed response is a fresh
  reference, never identical to the value kept from an earlier response or to a string.
\<close>

fun strict_eq :: "jsval \<Rightarrow> jsval \<Rightarrow> bool" where
  "strict_eq (JArr _) _ = False"
| "strict_eq (JObj _) _ = False"
| "strict_eq a b = (a = b)"

text \<open>The local constant \<open>FINAL_STATES\<close> of \<open>waitForCompletion\<close> and its \<open>includes\<close>.\<close>

definition FINAL_STATES :: "string list" where
  "FINAL_STATES =
     [''completed'', ''failed'', ''expired'', ''rejected'', ''error'', ''usercanceled'']"

fun includes_state :: "string list \<Rightarrow> jsval \<Rightarrow> bool" where
  "includes_state xs (JStr x) = (x \<in> set xs)"
| "includes_state xs _ = False"

text \<open>
  The options of \<open>waitForCompletion\<close>; \<open>onStateChange\<close> says whether a callback is given.
  A call of the callback is the event \<open>StateChange\<close> with its two arguments; the callback
  is taken to return normally.
\<close>

record wait_options =
  intervalMs :: "int option"
  timeoutMs :: "int option"
  onStateChange :: bool

text \<open>The loop \<open>while (Date.now() - start < timeout)\<close> with the \<open>throw\<close> that follows it.\<close>

function waitForCompletion_loop ::
  "client \<Rightarrow> string \<Rightarrow> int \<Rightarrow> int \<Rightarrow> bool \<Rightarrow> int \<Rightarrow> jsval \<Rightarrow> session \<Rightarrow> world
     \<Rightarrow> (error + jsval) \<times> session \<times> world" where
  "waitForCompletion_loop c txnId interval tmo cb start lastState s w =
     (if now w - start < tmo then
        (case transactions_get c txnId s w of
           (Inl err, s1, w1) \<Rightarrow> (Inl err, s1, w1)
         | (Inr txn, s1, w1) \<Rightarrow>
             (case get_prop txn ''txnState'' of
                Inl err \<Rightarrow> (Inl err, s1, w1)
              | Inr st \<Rightarrow>
                  (let changed = \<not> strict_eq st lastState;
                       lastState1 = (if changed then st else lastState);
                       w2 = (if changed \<and> cb then emit (StateChange st txn) w1 else w1)
                   in if includes_state FINAL_STATES st then (Inr txn, s1, w2)
                      else waitForCompletion_loop c txnId interval tmo cb start lastState1 s1
                             (sleep interval w2))))
      else
        (Inl (Error (''Transaction '' @ txnId @ '' did not complete within ''
                     @ decimal tmo @ ''ms'')),
         s, w))"
  by pat_completeness auto

definition waitForCompletion ::
  "client \<Rightarrow> string \<Rightarrow> wait_options option \<Rightarrow> session \<Rightarrow> world
     \<Rightarrow> (error + jsval) \<times> session \<times> world" where
  "waitForCompletion c txnId options s w =
     (let interval = (case options of None \<Rightarrow> 3000
                      | Some opts \<Rightarrow> (case intervalMs opts of None \<Rightarrow> 3000 | Some i \<Rightarrow> i));
          tmo = (case options of None \<Rightarrow> 300000
                 | Some opts \<Rightarrow> (case timeoutMs opts of None \<Rightarrow> 300000 | Some t \<Rightarrow> t));
          cb = (case options of None \<Rightarrow> False | Some opts \<Rightarrow> onStateChange opts);
          start = now w
      in waitForCompletion_loop c txnId interval tmo cb start (JStr []) s w)"

text \<open>
  What a run of the polling loop reads: the list of the states it observes, each with the
  transaction it came in, one entry for every poll that is answered. The function follows
  the loop step by step and collects instead of returning. \<open>observed\<close> does so for
  \<open>waitForCompletion\<close> and its options.
\<close>

function observed_states ::
  "client \<Rightarrow> string \<Rightarrow> int \<Rightarrow> int \<Rightarrow> bool \<Rightarrow> int \<Rightarrow> jsval \<Rightarrow> session \<Rightarrow> world
     \<Rightarrow> (jsval \<times> jsval) list" where
  "observed_states c txnId interval tmo cb start lastState s w =
     (if now w - start < tmo then
        (case transactions_get c txnId s w of
           (Inl err, s1, w1) \<Rightarrow> []
         | (Inr txn, s1, w1) \<Rightarrow>
             (case get_prop txn ''txnState'' of
                Inl err \<Rightarrow> []
              | Inr st \<Rightarrow>
                  (let changed = \<not> strict_eq st lastState;
                       lastState1 = (if changed then st else lastState);
                       w2 = (if changed \<and> cb then emit (StateChange st txn) w1 else w1)
                   in (st, txn) #
                      (if includes_state FINAL_STATES st then []
                       else observed_states c txnId interval tmo cb start lastState1 s1
                              (sleep interval w2)))))
      else [])"
  by pat_completeness auto

definition callback_given :: "wait_options option \<Rightarrow> bool" where
  "callback_given options = (case options of None \<Rightarrow> False | Some opts \<Rightarrow> onStateChange opts)"

definition observed :: "client \<Rightarrow> string \<Rightarrow> wait_options option \<Rightarrow> session \<Rightarrow> world
     \<Rightarrow> (jsval \<times> jsval) list" where
  "observed c txnId options s w =
     (let interval = (case options of None \<Rightarrow> 3000
                      | Some opts \<Rightarrow> (case intervalMs opts of None \<Rightarrow> 3000 | Some i \<Rightarrow> i));
          tmo = (case options of None \<Rightarrow> 300000
                 | Some opts \<Rightarrow> (case timeoutMs opts of None \<Rightarrow> 300000 | Some t \<Rightarrow> t));
          cb = (case options of None \<Rightarrow> False | Some opts \<Rightarrow> onStateChange opts);
          start = now w
      in observed_states c txnId interval tmo cb start (JStr []) s w)"

text \<open>
  The calls of \<open>onStateChange\<close> that a list of observations asks for: one for each
  observation whose state is not identical (\<open>!==\<close>) to the one before it, \<open>prev\<close> standing
  before the first.
\<close>

fun state_changes :: "jsval \<Rightarrow> (jsval \<times> jsval) list \<Rightarrow> event list" where
  "state_changes prev [] = []"
| "state_changes prev ((st, txn) # obs) =
     (if strict_eq st prev then state_changes prev obs
      else StateChange st txn # state_changes st obs)"

subsection \<open>Streaming\<close>

text \<open>
  The regular expression
  \<open>/^[0-9a-f]{8}-[0-9a-f]{4}-[0-9a-f]{4}-[0-9a-f]{4}-[0-9a-f]{12}$/i\<close>
  as a matcher: each step consumes its part of the input or fails, and \<open>$\<close> (without
  the \<open>m\<close> flag) demands that nothing is left. Under the \<open>i\<close> flag the class
  \<open>[0-9a-f]\<close> also holds the capitals.
\<close>

definition hex_char :: "char \<Rightarrow> bool" where
  "hex_char ch = (ch \<in> set ''0123456789abcdefABCDEF'')"

fun hexes :: "nat \<Rightarrow> string \<Rightarrow> string option" where
  "hexes 0 s = Some s"
| "hexes (Suc n) [] = None"
| "hexes (Suc n) (ch # s) = (if hex_char ch then hexes n s else None)"

fun hyphen :: "string \<Rightarrow> string option" where
  "hyphen [] = None"
| "hyphen (ch # s) = (if ch = CHR ''-'' then Some s else None)"

definition UUID_RE_test :: "string \<Rightarrow> bool" where
  "UUID_RE_test s =
     (hexes 8 s \<bind> hyphen \<bind> hexes 4 \<bind> hyphen \<bind> hexes 4 \<bind> hyphen
        \<bind> hexes 4 \<bind> hyphen \<bind> hexes 12 = Some [])"

text \<open>
  \<open>subscribe\<close>, from its first statement to the point where the stream is open: the
  check of the identifier, the clamp of the timeout (\<open>timeoutMs = 60_000\<close> when the
  argument is absent), the authorization headers, the call of \<open>fetch\<close> and the check of
  the response. The result is the open response whose frames the generator then reads.
\<close>

definition subscribe ::
  "client \<Rightarrow> string \<Rightarrow> int option \<Rightarrow> session \<Rightarrow> world
     \<Rightarrow> (error + response) \<times> session \<times> world" where
  "subscribe c transactionId timeoutArg s w =
     (let tmo = (case timeoutArg of None \<Rightarrow> 60000 | Some t \<Rightarrow> t)
      in if \<not> UUID_RE_test transactionId then
           (Inl (Error ''Invalid transactionId: must be a UUID.''), s, w)
         else
           (let clampedTimeout = min (max tmo 5000) 300000;
                u = baseUrl c @ ''/api/v2/events/stream?transactionId='' @ transactionId
            in case getAuthHeaders c s w of
                 (Inl err, s1, w1) \<Rightarrow> (Inl err, s1, w1)
               | (Inr hs, s1, w1) \<Rightarrow>
                   (case fetch \<lparr>url = u, http_method = ''GET'',
                                headers = (''Accept'', ''text/event-stream'') # hs,
                                body = None,
                                signal = AbortSignal_timeout clampedTimeout\<rparr> w1 of
                      (Inl err, w2) \<Rightarrow> (Inl err, s1, w2)
                    | (Inr r, w2) \<Rightarrow>
                        if \<not> ok r \<or> \<not> has_body r then
                          (Inl (Error (''SSE connection failed: '' @ decimal (status r)
                                       @ '' '' @ statusText r)),
                           s1, w2)
                        else (Inr r, s1, w2))))"

section \<open>Reading a trace\<close>

text \<open>
  What a run of \<open>request\<close> shows of its retry loop: each call that carries the
  \<open>Authorization\<close> header is an attempt (the call of \<open>authenticate\<close> carries the API key
  instead), each awaited timer a backoff with its delay. \<open>events_since w w'\<close> are the
  events a run from \<open>w\<close> to \<open>w'\<close> has added. \<open>attempt_schedule a n\<close> is what attempts
  \<open>a\<close> to \<open>n\<close> show when none of them ends the loop: before every attempt but attempt 0
  a backoff of \<open>2 ^ (attempt - 1)\<close> seconds.
\<close>

datatype step = Attempt | Backoff int

definition is_api_call :: "request \<Rightarrow> bool" where
  "is_api_call req = (''Authorization'' \<in> set (map fst (headers req)))"



definition attempt_schedule :: "int \<Rightarrow> int \<Rightarrow> step list" where
  "attempt_schedule a mr =
     concat (map (\<lambda>k. (if 0 < k then [Backoff (2 ^ nat (k - 1) * 1000)] else []) @ [Attempt])
                 [a..mr])"

section \<open>Example inputs\<close>

text \<open>
  A client with the default settings and debug output on, a session that was never
  authenticated, a session with a token that is good for a long time, and worlds whose
  network answers from a script (each answer after 10 ms; a refused connection once the
  script is used up).
\<close>

definition example_client :: client where
  "example_client =
     \<lparr>apiKey = ''key'', apiSecret = ''secret'', baseUrl = ''https://api.neutron.me'',
      timeout = 30000, maxRetries = 2, debug = True\<rparr>"

definition fresh_session :: session where
  "fresh_session = \<lparr>accessToken = JNull, accountId = JNull, tokenExpiry = Some 0\<rparr>"

definition live_session :: session where
  "live_session =
     \<lparr>accessToken = JStr ''tok'', accountId = JStr ''acct'', tokenExpiry = Some 100000000\<rparr>"

definition reply :: "int \<Rightarrow> jsval \<Rightarrow> nat \<times> fetch_result" where
  "reply st b = (10, Responded \<lparr>status = st, statusText = [], json = Some b, has_body = True\<rparr>)"

definition script :: "(nat \<times> fetch_result) list \<Rightarrow> nat \<Rightarrow> nat \<times> fetch_result" where
  "script rs k = (if k < length rs then rs ! k else (0, Rejected ''fetch failed''))"

definition example_world :: "(nat \<times> fetch_result) list \<Rightarrow> world" where
  "example_world rs = \<lparr>now = 1000, net = script rs, trace = [], dateParse = (\<lambda>v. None)\<rparr>"

definition auth_reply :: "nat \<times> fetch_result" where
  "auth_reply =
     reply 200 (JObj [(''data'', JObj [(''accountId'', JStr ''acct''),
                                      (''accessToken'', JStr ''tok''),
                                      (''expiredAt'', JNum 100000000)])])"

text \<open>A token endpoint that hands out a token expiring 29 s after the example clock.\<close>

definition short_reply :: "nat \<times> fetch_result" where
  "short_reply =
     reply 200 (JObj [(''data'', JObj [(''accountId'', JStr ''acct''),
                                      (''accessToken'', JStr ''tok''),
                                      (''expiredAt'', JNum 30000)])])"

definition slow_reply :: "nat \<times> fetch_result" where
  "slow_reply =
     (30000, Responded \<lparr>status = 200, statusText = [], json = Some JNull, has_body = True\<rparr>)"

text \<open>
  For the polling loop: a transaction in a given state, options with a callback and the
  default interval and timeout, and the request and the debug line of one poll.
\<close>

definition txn_in :: "string \<Rightarrow> jsval" where
  "txn_in st = JObj [(''txnId'', JStr ''5e25d2f4-9bca-4b7a-a1ad-2cf056100cb6''), (''txnState'', JStr st)]"

definition with_callback :: "wait_options option" where
  "with_callback = Some \<lparr>intervalMs = None, timeoutMs = None, onStateChange = True\<rparr>"

definition poll_request :: request where
  "poll_request =
     api_request example_client ''GET''
       ''/api/v2/transaction/5e25d2f4-9bca-4b7a-a1ad-2cf056100cb6'' JUndefined live_session"

definition poll_line :: "int \<Rightarrow> event" where
  "poll_line t = Log t ''GET /api/v2/transaction/5e25d2f4-9bca-4b7a-a1ad-2cf056100cb6'' None"

section \<open>Properties\<close>

subsection \<open>The clock never runs backwards\<close>

text \<open>
  Every step of the client leaves the clock where it is or advances it, and an awaited
  timer advances it by at least one millisecond. This is what bounds the polling loop.
\<close>

lemma timer_delay_pos: "1 \<le> timer_delay d"
  by (simp add: timer_delay_def)

lemma now_emit: "now (emit e w) = now w"
  by (simp add: emit_def)

lemma now_sleep: "now (sleep ms w) = now w + timer_delay ms"
  by (simp add: sleep_def)

lemma now_log: "now (log c m d w) = now w"
  by (simp add: log_def now_emit)

lemma rawFetch_now: "rawFetch c u m hs b w = (r, w1) \<Longrightarrow> now w \<le> now w1"
  using timer_delay_pos [of "timeout c"]
  by (auto simp: rawFetch_def fetch_def Let_def now_emit split: prod.splits if_splits sum.splits)

lemma authenticate_now: "authenticate c s w = (r, s1, w1) \<Longrightarrow> now w \<le> now w1"
  by (auto simp: authenticate_def Let_def split: prod.splits sum.splits if_splits option.splits
      dest: rawFetch_now)

lemma ensureAuth_now: "ensureAuth c s w = (r, s1, w1) \<Longrightarrow> now w \<le> now w1"
  by (auto simp: ensureAuth_def split: prod.splits sum.splits if_splits dest: authenticate_now)

lemma backoff_now: "backoff c a s w = (r, s1, w1) \<Longrightarrow> now w \<le> now w1"
  using timer_delay_pos [of "2 ^ nat (a - 1) * 1000"]
  by (auto simp: backoff_def Let_def now_sleep split: prod.splits sum.splits if_splits
      dest!: authenticate_now)

lemma request_attempts_now:
  "request_attempts c m p b a le s w = (r, s1, w1) \<Longrightarrow> now w \<le> now w1"
proof (induction c m p b a le s w rule: request_attempts.induct)
  case (1 c m path b attempt lastError s w)
  note prems = "1.prems" [unfolded request_attempts.simps [of c m path b attempt lastError s w]]
  show ?case
  proof (cases "attempt \<le> maxRetries c")
    case False
    with prems show ?thesis by simp
  next
    case True
    obtain rb sb wb where B: "backoff c attempt s w = (rb, sb, wb)"
      by (cases "backoff c attempt s w") auto
    from backoff_now [OF B] have nb: "now w \<le> now wb" .
    show ?thesis
    proof (cases rb)
      case (Inl e)
      with prems True B nb show ?thesis by simp
    next
      case (Inr u)
      let ?w2 = "log c (m @ '' '' @ path) JUndefined wb"
      let ?hs = "[(''Authorization'', ''Bearer '' @ to_string (accessToken sb)),
                        (''Content-Type'', ''application/json'')]"
      obtain rf wf where F: "rawFetch c (baseUrl c @ path) m ?hs (if truthy b then Some (Json b) else None) ?w2 = (rf, wf)"
        by (cases "rawFetch c (baseUrl c @ path) m ?hs (if truthy b then Some (Json b) else None) ?w2") auto
      from rawFetch_now [OF F] nb have nf: "now w \<le> now wf" by (simp add: now_log)
      show ?thesis
      proof (cases rf)
        case (Inl e)
        with prems True B Inr F nf show ?thesis by (simp add: Let_def)
      next
        case R: (Inr resp)
        show ?thesis
        proof (cases "ok resp")
          case True
          with prems \<open>attempt \<le> maxRetries c\<close> B Inr F R nf show ?thesis
            by (auto simp: Let_def split: option.splits)
        next
          case nok: False
          show ?thesis
            using prems \<open>attempt \<le> maxRetries c\<close> B Inr F R nf nok
              "1.IH"(1) [OF True B [symmetric] Inr refl refl refl refl F [symmetric] R nok refl refl]
              "1.IH"(2) [OF True B [symmetric] Inr refl refl refl refl F [symmetric] R nok refl refl]
            by (auto simp: Let_def split: if_splits)
        qed
      qed
    qed
  qed
qed


lemma request_now: "request c m p b s w = (r, s1, w1) \<Longrightarrow> now w \<le> now w1"
  by (auto simp: request_def split: prod.splits sum.splits
      dest!: ensureAuth_now request_attempts_now)

lemma transactions_get_now: "transactions_get c txnId s w = (r, s1, w1) \<Longrightarrow> now w \<le> now w1"
  by (auto simp: transactions_get_def get_def split: sum.splits dest: request_now)

termination waitForCompletion_loop
proof (relation "measure (\<lambda>(c, txnId, interval, tmo, cb, start, lastState, s, w).
                   nat (tmo - (now w - start)))", goal_cases)
  case 1
  show ?case by simp
next
  case (2 c txnId interval tmo cb start lastState s w x y txn s1 w1 st changed lastState1 w2)
  from 2 have "transactions_get c txnId s w = (Inr txn, s1, w1)" by simp
  from transactions_get_now [OF this] have "now w \<le> now w1" .
  moreover from 2 have "now w2 = now w1" by (simp add: now_emit)
  moreover have "1 \<le> timer_delay interval" by (rule timer_delay_pos)
  ultimately show ?case using 2(1) by (simp add: now_sleep)
qed

declare waitForCompletion_loop.simps [simp del]

termination observed_states
proof (relation "measure (\<lambda>(c, txnId, interval, tmo, cb, start, lastState, s, w).
                   nat (tmo - (now w - start)))", goal_cases)
  case 1
  show ?case by simp
next
  case (2 c txnId interval tmo cb start lastState s w x y txn s1 w1 st changed lastState1 w2)
  from 2 have "transactions_get c txnId s w = (Inr txn, s1, w1)" by simp
  from transactions_get_now [OF this] have "now w \<le> now w1" .
  moreover from 2 have "now w2 = now w1" by (simp add: now_emit)
  moreover have "1 \<le> timer_delay interval" by (rule timer_delay_pos)
  ultimately show ?case using 2(1) by (simp add: now_sleep)
qed

declare observed_states.simps [simp del]

lemmas example_defs =
  example_client_def fresh_session_def live_session_def reply_def script_def
  example_world_def auth_reply_def slow_reply_def

subsection \<open>Requests sent and events written\<close>

lemma fetch_count_emit: "fetch_count (emit e w) = fetch_count w + (if is_Fetch e then 1 else 0)"
  by (simp add: fetch_count_def emit_def)

lemma fetch_count_now_update [simp]: "fetch_count (w\<lparr>now := t\<rparr>) = fetch_count w"
  by (simp add: fetch_count_def)

lemma fetch_fetch_count: "fetch req w = (r, w1) \<Longrightarrow> fetch_count w1 = fetch_count w + 1"
  by (auto simp: fetch_def Let_def fetch_count_emit split: prod.splits if_splits)

lemma fetch_trace: "fetch req w = (r, w1) \<Longrightarrow> trace w1 = trace w @ [Fetch req]"
  by (auto simp: fetch_def Let_def emit_def split: prod.splits if_splits)

lemma rawFetch_fetch_count:
  "rawFetch c u m hs b w = (r, w1) \<Longrightarrow> fetch_count w1 = fetch_count w + 1"
  by (auto simp: rawFetch_def split: prod.splits sum.splits dest: fetch_fetch_count)

lemma authenticate_fetch_count:
  "authenticate c s w = (r, s1, w1) \<Longrightarrow> fetch_count w1 = fetch_count w + 1"
  by (auto simp: authenticate_def Let_def split: prod.splits sum.splits if_splits option.splits
      dest: rawFetch_fetch_count)

lemma ensureAuth_valid: "isTokenValid s w \<Longrightarrow> ensureAuth c s w = (Inr (), s, w)"
  by (simp add: ensureAuth_def)

lemma rawFetch_trace:
  "rawFetch c u m hs b w = (r, w') \<Longrightarrow>
   trace w' = trace w @ [Fetch \<lparr>url = u, http_method = m, headers = hs, body = b,
                                signal = Controller_timer (timeout c)\<rparr>]"
  by (auto simp: rawFetch_def split: prod.splits sum.splits dest: fetch_trace)

lemma authenticate_trace:
  "authenticate c s w = (r, s', w') \<Longrightarrow> trace w' = trace w @ [Fetch (auth_request c)]"
  by (auto simp: authenticate_def auth_request_def Let_def
      split: prod.splits sum.splits if_splits option.splits dest: rawFetch_trace)

lemma authenticate_no_log:
  "filter is_Log (trace (snd (snd (authenticate c s w)))) = filter is_Log (trace w)"
proof -
  obtain r s' w' where A: "authenticate c s w = (r, s', w')"
    by (cases "authenticate c s w") auto
  from authenticate_trace [OF A] A show ?thesis by simp
qed

lemma log_off: "\<not> debug c \<Longrightarrow> log c msg d w = w"
  by (simp add: log_def)

lemma log_on:
  "debug c \<Longrightarrow> trace (log c msg JUndefined w) = trace w @ [Log (now w) msg None]"
  by (simp add: log_def emit_def)

subsection \<open>The token manager\<close>

text \<open>
  An authentication that is answered: the token endpoint replies before the abort timer
  fires, with a 2xx status and a body whose \<open>data\<close> can be read. It sends one request,
  takes the time the reply took, and stores what the reply carries.
\<close>

lemma fetch_answered:
  "net w (fetch_count w) = (l, Responded r) \<Longrightarrow> int l < signal_delay (signal req) \<Longrightarrow>
   fetch req w = (Inr r, (emit (Fetch req) w)\<lparr>now := now w + int l\<rparr>)"
  by (simp add: fetch_def Let_def)

lemma authenticate_answered:
  assumes "net w (fetch_count w) = (l, Responded r)" "int l < timer_delay (timeout c)"
    and "ok r" "json r = Some raw" "get_prop raw ''data'' = Inr d"
  shows "authenticate c s w =
     (Inr (nullish d raw),
      \<lparr>accessToken = opt_prop (nullish d raw) ''accessToken'',
       accountId = opt_prop (nullish d raw) ''accountId'',
       tokenExpiry = (case opt_prop (nullish d raw) ''expiredAt'' of
                        JNum n \<Rightarrow> Some n
                      | v \<Rightarrow> dateParse w v)\<rparr>,
      (emit (Fetch (auth_request c)) w)\<lparr>now := now w + int l\<rparr>)"
proof -
  have "fetch (auth_request c) w = (Inr r, (emit (Fetch (auth_request c)) w)\<lparr>now := now w + int l\<rparr>)"
    using assms(1,2) by (intro fetch_answered) (simp_all add: auth_request_def)
  then show ?thesis using assms(3-5)
    by (simp add: authenticate_def rawFetch_def auth_request_def Let_def emit_def
        cong: jsval.case_cong)
qed

lemmas auth_run_defs = ensureAuth_def isTokenValid_def authenticate_def rawFetch_def
      fetch_def fetch_count_def emit_def Let_def ok_def timer_delay_def
      TOKEN_REFRESH_BUFFER_MS_def nullish_def opt_prop_def

text \<open>
  C6, as stated, fails: a session is valid only while the clock is more than 60000 ms
  before its expiry, and nothing makes the session just obtained valid. When the token
  endpoint hands out tokens that
  expire within 60 s (here at 30000, the reply arriving at 1010), the first call
  authenticates and succeeds, the second, made at once on the session and world the
  first has left, authenticates again: two calls, two requests.
\<close>

theorem ensureAuth_twice_two_requests:
  "fetch_count (example_world [short_reply, short_reply]) = 0
   \<and> fst (ensureAuth example_client fresh_session (example_world [short_reply, short_reply]))
       = Inr ()
   \<and> fst (ensureAuth example_client
        (fst (snd (ensureAuth example_client fresh_session
                     (example_world [short_reply, short_reply]))))
        (snd (snd (ensureAuth example_client fresh_session
                     (example_world [short_reply, short_reply])))))
       = Inr ()
   \<and> now (snd (snd (ensureAuth example_client fresh_session
                     (example_world [short_reply, short_reply])))) = 1010
   \<and> fetch_count
        (snd (snd (ensureAuth example_client
           (fst (snd (ensureAuth example_client fresh_session
                        (example_world [short_reply, short_reply]))))
           (snd (snd (ensureAuth example_client fresh_session
                        (example_world [short_reply, short_reply])))))))
       = 2"
  by (simp add: example_defs short_reply_def auth_run_defs)

text \<open>
  C6, amended. When the client is authenticated (access token and account id are set)
  and the clock is strictly before \<open>expiresAt - 60000\<close>, \<open>ensureAuth\<close> succeeds, sends
  nothing and leaves session and world as they are. When it is not, and the token
  endpoint answers in time with a 2xx reply that carries an access token, an account id
  and an expiry more than 60000 ms after the arrival of the reply, then the first call
  succeeds with exactly one request sent, and a second call made at once on the session
  and world it has left succeeds with none: session and world stay as they are.
\<close>

theorem ensureAuth_idempotent:
  "(truthy (accessToken s) \<and> truthy (accountId s) \<and> tokenExpiry s = Some expiresAt
      \<and> now w < expiresAt - 60000
    \<longrightarrow> ensureAuth c s w = (Inr (), s, w)) \<and>
   (\<not> isTokenValid s w
      \<and> net w (fetch_count w) = (l, Responded r) \<and> int l < timer_delay (timeout c)
      \<and> ok r \<and> json r = Some raw \<and> get_prop raw ''data'' = Inr d
      \<and> truthy (opt_prop (nullish d raw) ''accessToken'')
      \<and> truthy (opt_prop (nullish d raw) ''accountId'')
      \<and> (case opt_prop (nullish d raw) ''expiredAt'' of
            JNum n \<Rightarrow> Some n
          | v \<Rightarrow> dateParse w v) = Some e
      \<and> now w + int l < e - 60000
      \<and> s' = \<lparr>accessToken = opt_prop (nullish d raw) ''accessToken'',
                accountId = opt_prop (nullish d raw) ''accountId'',
                tokenExpiry = Some e\<rparr>
      \<and> w' = (emit (Fetch (auth_request c)) w)\<lparr>now := now w + int l\<rparr>
    \<longrightarrow> ensureAuth c s w = (Inr (), s', w')
        \<and> fetch_count w' = fetch_count w + 1
        \<and> ensureAuth c s' w' = (Inr (), s', w'))"
proof (intro conjI impI)
  assume "truthy (accessToken s) \<and> truthy (accountId s) \<and> tokenExpiry s = Some expiresAt
      \<and> now w < expiresAt - 60000"
  then have "isTokenValid s w"
    by (simp add: isTokenValid_def TOKEN_REFRESH_BUFFER_MS_def)
  then show "ensureAuth c s w = (Inr (), s, w)" by (rule ensureAuth_valid)
next
  assume A: "\<not> isTokenValid s w
      \<and> net w (fetch_count w) = (l, Responded r) \<and> int l < timer_delay (timeout c)
      \<and> ok r \<and> json r = Some raw \<and> get_prop raw ''data'' = Inr d
      \<and> truthy (opt_prop (nullish d raw) ''accessToken'')
      \<and> truthy (opt_prop (nullish d raw) ''accountId'')
      \<and> (case opt_prop (nullish d raw) ''expiredAt'' of
            JNum n \<Rightarrow> Some n
          | v \<Rightarrow> dateParse w v) = Some e
      \<and> now w + int l < e - 60000
      \<and> s' = \<lparr>accessToken = opt_prop (nullish d raw) ''accessToken'',
                accountId = opt_prop (nullish d raw) ''accountId'',
                tokenExpiry = Some e\<rparr>
      \<and> w' = (emit (Fetch (auth_request c)) w)\<lparr>now := now w + int l\<rparr>"
  then have auth: "authenticate c s w = (Inr (nullish d raw), s', w')"
    using authenticate_answered [of w l r c raw d s] by simp
  with A show first: "ensureAuth c s w = (Inr (), s', w')"
    by (simp add: ensureAuth_def)
  from A show "fetch_count w' = fetch_count w + 1"
    by (simp add: fetch_count_emit)
  from A have "isTokenValid s' w'"
    by (simp add: isTokenValid_def TOKEN_REFRESH_BUFFER_MS_def now_emit)
  then show "ensureAuth c s' w' = (Inr (), s', w')" by (rule ensureAuth_valid)
qed

text \<open>
  The theorem at work: a live session is left alone, and a fresh session is authenticated
  by the first call (one request) and left alone by the second.
\<close>

theorem ensureAuth_idempotent_witness:
  "(truthy (accessToken live_session) \<and> truthy (accountId live_session)
      \<and> tokenExpiry live_session = Some 100000000
      \<and> now (example_world []) < 100000000 - 60000)
   \<and> ensureAuth example_client live_session (example_world [])
       = (Inr (), live_session, example_world [])
   \<and> \<not> isTokenValid fresh_session (example_world [auth_reply])
   \<and> ensureAuth example_client fresh_session (example_world [auth_reply])
       = (Inr (), live_session,
          (example_world [auth_reply])
            \<lparr>now := 1010, trace := [Fetch (auth_request example_client)]\<rparr>)
   \<and> fetch_count ((example_world [auth_reply])
            \<lparr>now := 1010, trace := [Fetch (auth_request example_client)]\<rparr>)
       = fetch_count (example_world [auth_reply]) + 1
   \<and> ensureAuth example_client live_session
         ((example_world [auth_reply])
            \<lparr>now := 1010, trace := [Fetch (auth_request example_client)]\<rparr>)
       = (Inr (), live_session,
          (example_world [auth_reply])
            \<lparr>now := 1010, trace := [Fetch (auth_request example_client)]\<rparr>)"
  using
    ensureAuth_idempotent [where s = live_session and expiresAt = 100000000
      and w = "example_world []" and c = example_client]
    ensureAuth_idempotent [where c = example_client and s = fresh_session
      and w = "example_world [auth_reply]" and l = 10
      and r = "\<lparr>status = 200, statusText = [],
                json = Some (JObj [(''data'', JObj [(''accountId'', JStr ''acct''),
                                      (''accessToken'', JStr ''tok''),
                                      (''expiredAt'', JNum 100000000)])]),
                has_body = True\<rparr>"
      and raw = "JObj [(''data'', JObj [(''accountId'', JStr ''acct''),
                                      (''accessToken'', JStr ''tok''),
                                      (''expiredAt'', JNum 100000000)])]"
      and d = "JObj [(''accountId'', JStr ''acct''),
                                      (''accessToken'', JStr ''tok''),
                                      (''expiredAt'', JNum 100000000)]"
      and e = 100000000 and s' = live_session
      and w' = "(example_world [auth_reply])
            \<lparr>now := 1010, trace := [Fetch (auth_request example_client)]\<rparr>"]
  by (simp add: example_defs isTokenValid_def fetch_count_def emit_def ok_def timer_delay_def
      TOKEN_REFRESH_BUFFER_MS_def nullish_def opt_prop_def)

subsection \<open>Streaming\<close>

text \<open>
  What the matcher accepts: five groups of 8, 4, 4, 4 and 12 hexadecimal digits with a
  hyphen between one group and the next, and nothing else.
\<close>

lemma hexes_iff:
  "hexes n s = Some r \<longleftrightarrow> (\<exists>a. s = a @ r \<and> length a = n \<and> list_all hex_char a)"
proof (induction n arbitrary: s)
  case 0
  then show ?case by auto
next
  case (Suc n)
  show ?case
  proof (cases s)
    case Nil
    then show ?thesis by simp
  next
    case (Cons ch t)
    show ?thesis
    proof
      assume "hexes (Suc n) s = Some r"
      with Cons have h: "hex_char ch" "hexes n t = Some r" by (auto split: if_splits)
      with Suc.IH [of t] obtain a where "t = a @ r" "length a = n" "list_all hex_char a" by blast
      with h Cons have "s = (ch # a) @ r \<and> length (ch # a) = Suc n \<and> list_all hex_char (ch # a)"
        by simp
      then show "\<exists>a. s = a @ r \<and> length a = Suc n \<and> list_all hex_char a" by blast
    next
      assume "\<exists>a. s = a @ r \<and> length a = Suc n \<and> list_all hex_char a"
      then obtain a where a: "s = a @ r" "length a = Suc n" "list_all hex_char a" by blast
      then obtain x a' where "a = x # a'" by (cases a) auto
      with a Cons have "ch = x" "t = a' @ r" "length a' = n" "hex_char x" "list_all hex_char a'"
        by auto
      with Suc.IH [of t] Cons show "hexes (Suc n) s = Some r" by auto
    qed
  qed
qed

lemma hyphen_iff: "hyphen s = Some r \<longleftrightarrow> s = CHR ''-'' # r"
  by (cases s) auto

lemma UUID_RE_test_iff:
  "UUID_RE_test s \<longleftrightarrow>
     (\<exists>a b c d e. s = a @ ''-'' @ b @ ''-'' @ c @ ''-'' @ d @ ''-'' @ e
        \<and> length a = 8 \<and> length b = 4 \<and> length c = 4 \<and> length d = 4 \<and> length e = 12
        \<and> list_all hex_char (a @ b @ c @ d @ e))"
  unfolding UUID_RE_test_def bind_eq_Some_conv hexes_iff hyphen_iff
  by (auto; blast?)

lemma uuid_example: "UUID_RE_test ''5e25d2f4-9bca-4b7a-a1ad-2cf056100cb6''"
  by code_simp

lemma not_uuid_example: "\<not> UUID_RE_test ''txn-123''"
  by code_simp

text \<open>
  What \<open>subscribe\<close> does with its arguments. An identifier that does not match the UUID
  format fails with the error "Invalid transactionId: must be a UUID." and leaves session
  and world untouched: nothing was sent. With a conforming identifier no timeout is refused: once
  the authorization headers are there, the connection is opened, and the abort timer it
  carries is the requested timeout (60000 when absent) clamped to between 5000 and
  300000; if the headers cannot be had, their error is passed on.
\<close>

lemma subscribe_opens_clamped:
  "(\<not> UUID_RE_test tid \<longrightarrow>
      subscribe c tid t s w = (Inl (Error ''Invalid transactionId: must be a UUID.''), s, w)) \<and>
   (UUID_RE_test tid \<and> getAuthHeaders c s w = (Inl err, s', w') \<longrightarrow>
      subscribe c tid t s w = (Inl err, s', w')) \<and>
   (UUID_RE_test tid \<and> getAuthHeaders c s w = (Inr hs, s', w') \<longrightarrow>
      (\<exists>T. trace (snd (snd (subscribe c tid t s w))) =
             trace w' @
             [Fetch \<lparr>url = baseUrl c @ ''/api/v2/events/stream?transactionId='' @ tid,
                     http_method = ''GET'',
                     headers = (''Accept'', ''text/event-stream'') # hs,
                     body = None,
                     signal = AbortSignal_timeout T\<rparr>]
          \<and> 5000 \<le> T \<and> T \<le> 300000
          \<and> T = (let v = (case t of None \<Rightarrow> 60000 | Some v \<Rightarrow> v)
                 in if v < 5000 then 5000 else if 300000 < v then 300000 else v)))"
proof (intro conjI impI)
  assume "\<not> UUID_RE_test tid"
  then show "subscribe c tid t s w = (Inl (Error ''Invalid transactionId: must be a UUID.''), s, w)"
    by (simp add: subscribe_def)
next
  assume "UUID_RE_test tid \<and> getAuthHeaders c s w = (Inl err, s', w')"
  then show "subscribe c tid t s w = (Inl err, s', w')"
    by (simp add: subscribe_def)
next
  assume A: "UUID_RE_test tid \<and> getAuthHeaders c s w = (Inr hs, s', w')"
  define v where "v = (case t of None \<Rightarrow> 60000 | Some v \<Rightarrow> (v::int))"
  define T where "T = min (max v 5000) 300000"
  define req where "req = \<lparr>url = baseUrl c @ ''/api/v2/events/stream?transactionId='' @ tid,
                     http_method = ''GET'',
                     headers = (''Accept'', ''text/event-stream'') # hs,
                     body = None,
                     signal = AbortSignal_timeout T\<rparr>"
  obtain r w'' where F: "fetch req w' = (r, w'')" by (cases "fetch req w'") auto
  from A F have "snd (snd (subscribe c tid t s w)) = w''"
    by (auto simp: subscribe_def Let_def req_def T_def v_def split: sum.splits)
  with fetch_trace [OF F] have "trace (snd (snd (subscribe c tid t s w))) = trace w' @ [Fetch req]"
    by simp
  moreover have "5000 \<le> T" "T \<le> 300000"
    "T = (if v < 5000 then 5000 else if 300000 < v then 300000 else v)"
    by (auto simp: T_def)
  ultimately show "\<exists>T. trace (snd (snd (subscribe c tid t s w))) =
             trace w' @
             [Fetch \<lparr>url = baseUrl c @ ''/api/v2/events/stream?transactionId='' @ tid,
                     http_method = ''GET'',
                     headers = (''Accept'', ''text/event-stream'') # hs,
                     body = None,
                     signal = AbortSignal_timeout T\<rparr>]
          \<and> 5000 \<le> T \<and> T \<le> 300000
          \<and> T = (let v = (case t of None \<Rightarrow> 60000 | Some v \<Rightarrow> v)
                 in if v < 5000 then 5000 else if 300000 < v then 300000 else v)"
    unfolding req_def v_def Let_def by blast
qed

text \<open>
  The lemma at work. The identifier \<open>txn-123\<close> is refused with nothing sent. A UUID
  with a requested timeout of 1 ms opens the stream under a timer of 5000 ms, one with
  a requested 999999 ms would get 300000 ms. A fresh session whose authentication
  meets a refused connection passes that failure on.
\<close>

lemma subscribe_opens_clamped_example:
  "\<not> UUID_RE_test ''txn-123''
   \<and> subscribe example_client ''txn-123'' (Some 1) live_session (example_world [])
       = (Inl (Error ''Invalid transactionId: must be a UUID.''), live_session, example_world [])
   \<and> UUID_RE_test ''5e25d2f4-9bca-4b7a-a1ad-2cf056100cb6''
   \<and> getAuthHeaders example_client live_session (example_world [])
       = (Inr [(''Authorization'', ''Bearer tok'')], live_session, example_world [])
   \<and> trace (snd (snd (subscribe example_client ''5e25d2f4-9bca-4b7a-a1ad-2cf056100cb6''
                         (Some 1) live_session (example_world []))))
       = [Fetch \<lparr>url = ''https://api.neutron.me/api/v2/events/stream?transactionId=5e25d2f4-9bca-4b7a-a1ad-2cf056100cb6'',
                 http_method = ''GET'',
                 headers = [(''Accept'', ''text/event-stream''), (''Authorization'', ''Bearer tok'')],
                 body = None,
                 signal = AbortSignal_timeout 5000\<rparr>]
   \<and> fst (getAuthHeaders example_client fresh_session (example_world []))
       = Inl (FetchFailed ''fetch failed'')
   \<and> fst (subscribe example_client ''5e25d2f4-9bca-4b7a-a1ad-2cf056100cb6'' (Some 999999)
             fresh_session (example_world []))
       = Inl (FetchFailed ''fetch failed'')"
  using
    subscribe_opens_clamped [where tid = "''txn-123''" and c = example_client
      and t = "Some 1" and s = live_session and w = "example_world []"]
    subscribe_opens_clamped [where tid = "''5e25d2f4-9bca-4b7a-a1ad-2cf056100cb6''"
      and c = example_client and t = "Some 1" and s = live_session and w = "example_world []"
      and hs = "[(''Authorization'', ''Bearer tok'')]" and s' = live_session
      and w' = "example_world []"]
    subscribe_opens_clamped [where tid = "''5e25d2f4-9bca-4b7a-a1ad-2cf056100cb6''"
      and c = example_client and t = "Some 999999" and s = fresh_session
      and w = "example_world []" and err = "FetchFailed ''fetch failed''"
      and s' = "fst (snd (getAuthHeaders example_client fresh_session (example_world [])))"
      and w' = "snd (snd (getAuthHeaders example_client fresh_session (example_world [])))"]
  by (simp add: example_defs uuid_example not_uuid_example
      getAuthHeaders_def ensureAuth_def isTokenValid_def authenticate_def rawFetch_def
      fetch_def fetch_count_def emit_def Let_def ok_def timer_delay_def
      TOKEN_REFRESH_BUFFER_MS_def)

text \<open>
  The errors that can come out of the calls \<open>subscribe\<close> makes: none of \<open>fetch\<close>,
  \<open>rawFetch\<close>, \<open>authenticate\<close>, \<open>ensureAuth\<close> and \<open>getAuthHeaders\<close> fails with a
  \<open>NeutronValidationError\<close>, whereas \<open>sanitizePathParam\<close>, which guards the identifier of
  \<open>transactions.get\<close> and \<open>transactions.confirm\<close>, fails with nothing else.
\<close>

lemma not_uuid_traversal: "\<not> UUID_RE_test ''../admin''"
  by code_simp

lemma sanitize_traversal:
  "sanitizePathParam ''../admin'' ''txnId''
     = Inl (NeutronValidationError
         ''txnId contains invalid characters. Only alphanumeric, hyphens, underscores, and dots are allowed.'')"
  by code_simp

lemma get_prop_error: "get_prop v k = Inl err \<Longrightarrow> err = TypeError"
  by (cases v) auto

lemma signal_error_class: "signal_error sg \<noteq> NeutronValidationError msg"
  by (cases sg) simp_all

lemma fetch_error:
  "fetch req w = (Inl err, w') \<Longrightarrow> err \<noteq> NeutronValidationError msg"
  by (auto simp: fetch_def Let_def signal_error_class split: prod.splits if_splits
      fetch_result.splits)

lemma rawFetch_error:
  "rawFetch c u m hs b w = (Inl err, w') \<Longrightarrow> err \<noteq> NeutronValidationError msg"
  by (auto simp: rawFetch_def split: prod.splits sum.splits if_splits dest: fetch_error)

lemma authenticate_error:
  "authenticate c s w = (Inl err, s', w') \<Longrightarrow> err \<noteq> NeutronValidationError msg"
  by (auto simp: authenticate_def Let_def
      split: prod.splits sum.splits if_splits option.splits
      dest: rawFetch_error get_prop_error)

lemma ensureAuth_error:
  "ensureAuth c s w = (Inl err, s', w') \<Longrightarrow> err \<noteq> NeutronValidationError msg"
  by (auto simp: ensureAuth_def split: prod.splits sum.splits if_splits
      dest: authenticate_error)

lemma getAuthHeaders_error:
  "getAuthHeaders c s w = (Inl err, s', w') \<Longrightarrow> err \<noteq> NeutronValidationError msg"
  by (auto simp: getAuthHeaders_def split: prod.splits sum.splits
      dest: ensureAuth_error)

lemma sanitizePathParam_error:
  "sanitizePathParam v name = Inl err \<Longrightarrow> \<exists>m. err = NeutronValidationError m"
  by (auto simp: sanitizePathParam_def Let_def split: if_splits)

text \<open>
  C8. The timeout half holds (lemma \<open>subscribe_opens_clamped\<close>); the error half does not.
  \<open>subscribe\<close> with an identifier that does not match the UUID format does fail before
  anything is sent, session and world untouched, but what it throws is a plain \<open>Error\<close>
  with the message "Invalid transactionId: must be a UUID.", whose name is not
  \<open>NeutronValidationError\<close>; indeed no call of \<open>subscribe\<close>, with any arguments in any
  state, fails with a \<open>NeutronValidationError\<close>. The same malformed identifier given to
  \<open>sanitizePathParam\<close> is refused with a \<open>NeutronValidationError\<close>, the class the library
  exports for violated preconditions.
\<close>

theorem subscribe_invalid_id_plain_error:
  "(\<not> UUID_RE_test tid \<longrightarrow>
      subscribe c tid t s w = (Inl (Error ''Invalid transactionId: must be a UUID.''), s, w)
      \<and> error_name (Error ''Invalid transactionId: must be a UUID.'') \<noteq> ''NeutronValidationError'')
   \<and> fst (subscribe c tid t s w) \<noteq> Inl (NeutronValidationError msg)
   \<and> (sanitizePathParam tid name = Inl err \<longrightarrow> error_name err = ''NeutronValidationError'')"
proof (intro conjI impI)
  assume "\<not> UUID_RE_test tid"
  then show "subscribe c tid t s w = (Inl (Error ''Invalid transactionId: must be a UUID.''), s, w)"
    by (simp add: subscribe_def)
next
  show "error_name (Error ''Invalid transactionId: must be a UUID.'') \<noteq> ''NeutronValidationError''"
    by simp
next
  show "fst (subscribe c tid t s w) \<noteq> Inl (NeutronValidationError msg)"
    by (auto simp: subscribe_def Let_def split: prod.splits sum.splits if_splits
        dest: getAuthHeaders_error fetch_error)
next
  assume "sanitizePathParam tid name = Inl err"
  then show "error_name err = ''NeutronValidationError''"
    by (auto dest: sanitizePathParam_error)
qed

text \<open>
  The theorem at work on the identifier \<open>../admin\<close>: \<open>subscribe\<close> throws an \<open>Error\<close>,
  \<open>sanitizePathParam\<close> a \<open>NeutronValidationError\<close>.
\<close>

theorem subscribe_invalid_id_plain_error_witness:
  "\<not> UUID_RE_test ''../admin''
   \<and> subscribe example_client ''../admin'' None live_session (example_world [])
       = (Inl (Error ''Invalid transactionId: must be a UUID.''), live_session, example_world [])
   \<and> error_name (Error ''Invalid transactionId: must be a UUID.'') = ''Error''
   \<and> sanitizePathParam ''../admin'' ''txnId''
       = Inl (NeutronValidationError
           ''txnId contains invalid characters. Only alphanumeric, hyphens, underscores, and dots are allowed.'')
   \<and> error_name (NeutronValidationError
           ''txnId contains invalid characters. Only alphanumeric, hyphens, underscores, and dots are allowed.'')
       = ''NeutronValidationError''"
  using
    subscribe_invalid_id_plain_error [where tid = "''../admin''" and c = example_client
      and t = None and s = live_session and w = "example_world []" and name = "''txnId''"
      and err = "NeutronValidationError
           ''txnId contains invalid characters. Only alphanumeric, hyphens, underscores, and dots are allowed.''"]
  by (simp add: not_uuid_traversal sanitize_traversal)

subsection \<open>Cancelling\<close>

text \<open>
  C10. For every argument, in every state, \<open>transactions.cancel\<close> throws the error that
  says the operation is not available, and returns session and world exactly as they
  were: no request was sent and nothing was changed.
\<close>

theorem cancel_always_throws:
  "transactions_cancel c txnId s w =
     (Inl (Error ''transactions.cancel() is not available. Unconfirmed transactions expire automatically.''),
      s, w)"
  by (simp add: transactions_cancel_def)

subsection \<open>Debug output\<close>

text \<open>
  C9. With debug output on, a request writes one line for each of its attempts
  (\<open>log_on\<close>), and with debug output off nothing is written (\<open>log_off\<close>). A successful
  authentication, however, writes nothing, for any client (\<open>authenticate_no_log\<close>):
  its \<open>log\<close> statement stands after the \<open>return\<close>. Here for the example client, which
  has debug output on: the authentication succeeds, the session is set, and the
  diagnostic stream holds no line.
\<close>

theorem authenticate_writes_no_line:
  "debug example_client
   \<and> authenticate example_client fresh_session (example_world [auth_reply])
       = (Inr (JObj [(''accountId'', JStr ''acct''), (''accessToken'', JStr ''tok''),
                     (''expiredAt'', JNum 100000000)]),
          live_session,
          (example_world [auth_reply])
            \<lparr>now := 1010, trace := [Fetch (auth_request example_client)]\<rparr>)
   \<and> filter is_Log
         (trace (snd (snd (authenticate example_client fresh_session
                             (example_world [auth_reply])))))
       = []"
  by (simp add: example_defs authenticate_def auth_request_def rawFetch_def fetch_def
      fetch_count_def emit_def Let_def ok_def timer_delay_def nullish_def opt_prop_def)

subsection \<open>The signer\<close>

text \<open>
  The transcription of SHA-256 computes the digest that FIPS 180-4 gives for \<open>abc\<close>.
\<close>

lemma sha256_abc:
  "hex (sha256 (utf8 ''abc''))
   = ''ba7816bf8f01cfea414140de5dae2223b00361a396177a9cb410ff61f20015ad''"
  by code_simp

text \<open>The transcription of HMAC computes the tag of test case 2 of RFC 4231.\<close>

lemma hmac_sha256_rfc4231:
  "hex (hmac_sha256 (utf8 ''Jefe'') (utf8 ''what do ya want for nothing?''))
   = ''5bdcc146bf60754e6a042426089575c75a003f089d2739839dec58b964ec3843''"
  by code_simp

lemma length_bytes_of_u32: "length (bytes_of_u32 x) = 4"
  by (simp add: bytes_of_u32_def)

lemma length_digest_bytes: "length (digest_bytes st) = 32"
  by (simp add: digest_bytes_def length_bytes_of_u32 split: prod.splits)

lemma length_sha256: "length (sha256 m) = 32"
  by (simp add: sha256_def Let_def length_digest_bytes)

lemma length_hex: "length (hex bs) = 2 * length bs"
  by (induction bs) (simp_all add: hex_def)

lemma hex_digit_lower: "hex_digit n \<in> set ''0123456789abcdef''"
proof -
  have "n mod 16 < length ''0123456789abcdef''" by simp
  then show ?thesis unfolding hex_digit_def by (rule nth_mem)
qed

lemma hex_lower: "set (hex bs) \<subseteq> set ''0123456789abcdef''"
  unfolding hex_def using hex_digit_lower by auto

lemma hmac_key_zero: "length k < 64 \<Longrightarrow> hmac_key (k @ [0]) = hmac_key k"
proof -
  assume L: "length k < 64"
  then have "64 - length k = Suc (64 - length (k @ [0]))" by simp
  with L show ?thesis by (simp add: hmac_key_def Let_def replicate_app_Cons_same)
qed

lemma hmac_sha256_zero: "length k < 64 \<Longrightarrow> hmac_sha256 (k @ [0]) m = hmac_sha256 k m"
  by (simp add: hmac_sha256_def hmac_key_zero)

text \<open>
  C7, as stated, fails: changing one input need not change the signature. HMAC pads a
  key shorter than its block with zero bytes, so the secret \<open>secret\<close> and the secret
  \<open>secret\<close> followed by a NUL character sign every payload alike.
\<close>

theorem signature_collision:
  "apiSecret (example_client\<lparr>apiSecret := ''secret'' @ [CHR 0x00]\<rparr>) \<noteq> apiSecret example_client
   \<and> apiKey (example_client\<lparr>apiSecret := ''secret'' @ [CHR 0x00]\<rparr>) = apiKey example_client
   \<and> generateSignature (example_client\<lparr>apiSecret := ''secret'' @ [CHR 0x00]\<rparr>) auth_payload
       = generateSignature example_client auth_payload"
proof -
  have "utf8 (''secret'' @ [CHR 0x00]) = utf8 ''secret'' @ [0]"
    by (simp add: utf8_def)
  moreover have "length (utf8 ''secret'') < 64" by (simp add: utf8_def)
  ultimately show ?thesis
    by (simp add: generateSignature_def example_client_def hmac_sha256_zero del: of_char_Char)
qed

text \<open>
  C7, amended. The signature is the lowercase hexadecimal HMAC-SHA256, keyed by the API
  secret, of \<open>{apiKey}&payload={payload}\<close>: 64 characters out of \<open>0123456789abcdef\<close>.
  It is a function of the API key, the API secret and the payload alone: clients that
  agree on key and secret sign alike. The string that is signed changes whenever the
  payload alone or the API key alone changes. (That the digest changes with it is not
  promised.)
\<close>

theorem generateSignature_spec:
  "generateSignature c payload
     = hex (hmac_sha256 (utf8 (apiSecret c)) (utf8 (apiKey c @ ''&payload='' @ payload)))
   \<and> length (generateSignature c payload) = 64
   \<and> set (generateSignature c payload) \<subseteq> set ''0123456789abcdef''
   \<and> (apiKey c' = apiKey c \<and> apiSecret c' = apiSecret c
        \<longrightarrow> generateSignature c' payload = generateSignature c payload)
   \<and> (apiKey c @ ''&payload='' @ payload = apiKey c @ ''&payload='' @ payload'
        \<longleftrightarrow> payload = payload')
   \<and> (apiKey c @ ''&payload='' @ payload = apiKey c' @ ''&payload='' @ payload
        \<longleftrightarrow> apiKey c = apiKey c')"
proof (intro conjI)
  show "generateSignature c payload
     = hex (hmac_sha256 (utf8 (apiSecret c)) (utf8 (apiKey c @ ''&payload='' @ payload)))"
    by (simp add: generateSignature_def)
  show "length (generateSignature c payload) = 64"
    by (simp add: generateSignature_def length_hex hmac_sha256_def length_sha256)
  show "set (generateSignature c payload) \<subseteq> set ''0123456789abcdef''"
    unfolding generateSignature_def Let_def by (rule hex_lower)
  show "apiKey c' = apiKey c \<and> apiSecret c' = apiSecret c
        \<longrightarrow> generateSignature c' payload = generateSignature c payload"
    by (simp add: generateSignature_def)
  show "apiKey c @ ''&payload='' @ payload = apiKey c @ ''&payload='' @ payload'
        \<longleftrightarrow> payload = payload'"
    by simp
  show "apiKey c @ ''&payload='' @ payload = apiKey c' @ ''&payload='' @ payload
        \<longleftrightarrow> apiKey c = apiKey c'"
    by simp
qed

theorem generateSignature_spec_witness:
  "(apiKey (example_client\<lparr>debug := False\<rparr>) = apiKey example_client
    \<and> apiSecret (example_client\<lparr>debug := False\<rparr>) = apiSecret example_client)
   \<and> generateSignature (example_client\<lparr>debug := False\<rparr>) auth_payload
       = generateSignature example_client auth_payload
   \<and> length (generateSignature example_client auth_payload) = 64"
proof -
  have h: "apiKey (example_client\<lparr>debug := False\<rparr>) = apiKey example_client
    \<and> apiSecret (example_client\<lparr>debug := False\<rparr>) = apiSecret example_client"
    by simp
  with generateSignature_spec [where c = example_client
      and c' = "example_client\<lparr>debug := False\<rparr>" and payload = auth_payload]
  show ?thesis by blast
qed

subsection \<open>The retry loop: one attempt\<close>

lemma rawFetch_timeout_iff:
  "fst (rawFetch c u m hs b w) = Inl (NeutronTimeoutError (timeout c))
   \<longleftrightarrow> timer_delay (timeout c) \<le> int (fst (net w (fetch_count w)))"
  by (auto simp: rawFetch_def fetch_def Let_def split: prod.splits fetch_result.splits)

lemma rawFetch_timeout:
  "timer_delay (timeout c) \<le> int (fst (net w (fetch_count w))) \<Longrightarrow>
   rawFetch c u m hs b w =
     (Inl (NeutronTimeoutError (timeout c)),
      (emit (Fetch \<lparr>url = u, http_method = m, headers = hs, body = b,
                     signal = Controller_timer (timeout c)\<rparr>) w)
        \<lparr>now := now w + timer_delay (timeout c)\<rparr>)"
  by (auto simp: rawFetch_def fetch_def Let_def split: prod.splits)

lemma fetch_count_log [simp]: "fetch_count (log c msg d w) = fetch_count w"
  by (simp add: log_def fetch_count_emit)

lemma net_log [simp]: "net (log c msg d w) = net w"
  by (simp add: log_def emit_def)

lemma rawFetch_ok:
  "fetch \<lparr>url = u, http_method = m, headers = hs, body = b,
          signal = Controller_timer (timeout c)\<rparr> w = (Inr r, w')
   \<Longrightarrow> rawFetch c u m hs b w = (Inr r, w')"
  by (simp add: rawFetch_def)

lemmas run_defs =
  request_def ensureAuth_def isTokenValid_def backoff_def log_def rawFetch_def fetch_def
  fetch_count_def emit_def sleep_def timer_delay_def ok_def api_request_def Let_def
  TOKEN_REFRESH_BUFFER_MS_def new_NeutronApiError_def opt_prop_def js_or_def

text \<open>
  C4. A call of \<open>rawFetch\<close> fails with a \<open>NeutronTimeoutError\<close> that carries the
  configured timeout exactly when its abort timer fires before the answer is there.
  When that happens to the call of an attempt, whatever the number of the attempt, the
  loop ends there with this error: after the request of that attempt the trace holds
  nothing more, neither a timer nor another request. An error of the re-authentication
  before an attempt, a timeout among them, ends the loop in the same way.
\<close>

theorem timeout_propagates:
  "(fst (rawFetch c u hm hs bd w) = Inl (NeutronTimeoutError (timeout c))
      \<longleftrightarrow> timer_delay (timeout c) \<le> int (fst (net w (fetch_count w)))) \<and>
   (attempt \<le> maxRetries c \<and> backoff c attempt s w = (Inr (), s', w')
      \<and> timer_delay (timeout c) \<le> int (fst (net w' (fetch_count w')))
    \<longrightarrow> request_attempts c m path b attempt lastError s w =
          (Inl (NeutronTimeoutError (timeout c)), s',
           (emit (Fetch (api_request c m path b s')) (log c (m @ '' '' @ path) JUndefined w'))
             \<lparr>now := now w' + timer_delay (timeout c)\<rparr>)) \<and>
   (attempt \<le> maxRetries c \<and> backoff c attempt s w = (Inl err, s', w')
    \<longrightarrow> request_attempts c m path b attempt lastError s w = (Inl err, s', w'))"
proof (intro conjI impI)
  show "fst (rawFetch c u hm hs bd w) = Inl (NeutronTimeoutError (timeout c))
      \<longleftrightarrow> timer_delay (timeout c) \<le> int (fst (net w (fetch_count w)))"
    by (rule rawFetch_timeout_iff)
next
  assume A: "attempt \<le> maxRetries c \<and> backoff c attempt s w = (Inr (), s', w')
      \<and> timer_delay (timeout c) \<le> int (fst (net w' (fetch_count w')))"
  let ?w2 = "log c (m @ '' '' @ path) JUndefined w'"
  from A have "timer_delay (timeout c) \<le> int (fst (net ?w2 (fetch_count ?w2)))" by simp
  from rawFetch_timeout [OF this] A
  show "request_attempts c m path b attempt lastError s w =
          (Inl (NeutronTimeoutError (timeout c)), s',
           (emit (Fetch (api_request c m path b s')) ?w2)
             \<lparr>now := now w' + timer_delay (timeout c)\<rparr>)"
    by (subst request_attempts.simps) (simp add: Let_def api_request_def now_log)
next
  assume "attempt \<le> maxRetries c \<and> backoff c attempt s w = (Inl err, s', w')"
  then show "request_attempts c m path b attempt lastError s w = (Inl err, s', w')"
    by (subst request_attempts.simps) simp
qed

text \<open>
  The theorem at work, at the second attempt (after one backoff): first the attempt's own
  call times out, then the re-authentication of a session whose token a 401 has cleared.
\<close>

theorem timeout_propagates_witness:
  "backoff example_client 1 live_session
       ((example_world [reply 500 JNull, slow_reply])
          \<lparr>trace := [Fetch (api_request example_client ''GET'' ''/x'' JUndefined live_session)]\<rparr>)
     = (Inr (), live_session,
        (example_world [reply 500 JNull, slow_reply])
          \<lparr>now := 2000,
           trace := [Fetch (api_request example_client ''GET'' ''/x'' JUndefined live_session),
                     Sleep 1000]\<rparr>)
   \<and> request_attempts example_client ''GET'' ''/x'' JUndefined 1 None live_session
        ((example_world [reply 500 JNull, slow_reply])
           \<lparr>trace := [Fetch (api_request example_client ''GET'' ''/x'' JUndefined live_session)]\<rparr>)
      = (Inl (NeutronTimeoutError 30000), live_session,
         (example_world [reply 500 JNull, slow_reply])
           \<lparr>now := 32000,
            trace := [Fetch (api_request example_client ''GET'' ''/x'' JUndefined live_session),
                      Sleep 1000,
                      Log 2000 ''GET /x'' None,
                      Fetch (api_request example_client ''GET'' ''/x'' JUndefined live_session)]\<rparr>)
   \<and> backoff example_client 1 (live_session\<lparr>accessToken := JNull\<rparr>)
       ((example_world [reply 401 JNull, slow_reply])
          \<lparr>trace := [Fetch (api_request example_client ''GET'' ''/x'' JUndefined live_session)]\<rparr>)
     = (Inl (NeutronTimeoutError 30000), live_session\<lparr>accessToken := JNull\<rparr>,
        (example_world [reply 401 JNull, slow_reply])
          \<lparr>now := 32000,
           trace := [Fetch (api_request example_client ''GET'' ''/x'' JUndefined live_session),
                     Sleep 1000,
                     Fetch (auth_request example_client)]\<rparr>)
   \<and> request_attempts example_client ''GET'' ''/x'' JUndefined 1 None
        (live_session\<lparr>accessToken := JNull\<rparr>)
        ((example_world [reply 401 JNull, slow_reply])
           \<lparr>trace := [Fetch (api_request example_client ''GET'' ''/x'' JUndefined live_session)]\<rparr>)
      = (Inl (NeutronTimeoutError 30000), live_session\<lparr>accessToken := JNull\<rparr>,
         (example_world [reply 401 JNull, slow_reply])
           \<lparr>now := 32000,
            trace := [Fetch (api_request example_client ''GET'' ''/x'' JUndefined live_session),
                      Sleep 1000,
                      Fetch (auth_request example_client)]\<rparr>)"
  using
    timeout_propagates [where c = example_client and attempt = 1 and s = live_session
      and s' = live_session and m = "''GET''" and path = "''/x''" and b = JUndefined
      and lastError = None
      and w = "(example_world [reply 500 JNull, slow_reply])
          \<lparr>trace := [Fetch (api_request example_client ''GET'' ''/x'' JUndefined live_session)]\<rparr>"
      and w' = "(example_world [reply 500 JNull, slow_reply])
          \<lparr>now := 2000,
           trace := [Fetch (api_request example_client ''GET'' ''/x'' JUndefined live_session),
                     Sleep 1000]\<rparr>"]
    timeout_propagates [where c = example_client and attempt = 1
      and s = "live_session\<lparr>accessToken := JNull\<rparr>"
      and s' = "live_session\<lparr>accessToken := JNull\<rparr>"
      and m = "''GET''" and path = "''/x''" and b = JUndefined
      and lastError = None and err = "NeutronTimeoutError 30000"
      and w = "(example_world [reply 401 JNull, slow_reply])
          \<lparr>trace := [Fetch (api_request example_client ''GET'' ''/x'' JUndefined live_session)]\<rparr>"
      and w' = "(example_world [reply 401 JNull, slow_reply])
          \<lparr>now := 32000,
           trace := [Fetch (api_request example_client ''GET'' ''/x'' JUndefined live_session),
                     Sleep 1000,
                     Fetch (auth_request example_client)]\<rparr>"]
  by (simp add: example_defs run_defs authenticate_def auth_request_def)

text \<open>
  C2. An attempt whose call is answered with a status outside 200..299: on a 401 with
  attempts left the loop goes on with the access token cleared; on a 429 or a status of
  500 and more with attempts left it goes on with the session as it is; on any other
  status it ends at once with the \<open>NeutronApiError\<close> of that status, which is not
  retryable, in the world as the call left it: no further attempt and no backoff.
\<close>

theorem status_classification:
  "attempt \<le> maxRetries c \<and> backoff c attempt s w = (Inr (), s', w')
     \<and> fetch (api_request c m path b s') (log c (m @ '' '' @ path) JUndefined w') = (Inr r, w'')
     \<and> \<not> ok r
   \<longrightarrow>
     (status r = 401 \<and> attempt < maxRetries c \<longrightarrow>
        request_attempts c m path b attempt lastError s w =
        request_attempts c m path b (attempt + 1)
          (Some (new_NeutronApiError (status r) (case json r of None \<Rightarrow> JObj [] | Some v \<Rightarrow> v)))
          (s'\<lparr>accessToken := JNull\<rparr>) w'') \<and>
     ((status r = 429 \<or> 500 \<le> status r) \<and> attempt < maxRetries c \<longrightarrow>
        request_attempts c m path b attempt lastError s w =
        request_attempts c m path b (attempt + 1)
          (Some (new_NeutronApiError (status r) (case json r of None \<Rightarrow> JObj [] | Some v \<Rightarrow> v)))
          s' w'') \<and>
     (status r \<noteq> 401 \<and> status r \<noteq> 429 \<and> status r < 500 \<longrightarrow>
        request_attempts c m path b attempt lastError s w =
          (Inl (new_NeutronApiError (status r) (case json r of None \<Rightarrow> JObj [] | Some v \<Rightarrow> v)),
           s', w'') \<and>
        \<not> isRetryable
            (new_NeutronApiError (status r) (case json r of None \<Rightarrow> JObj [] | Some v \<Rightarrow> v)) \<and>
        (\<exists>cd msg bd.
           new_NeutronApiError (status r) (case json r of None \<Rightarrow> JObj [] | Some v \<Rightarrow> v)
           = NeutronApiError (status r) cd msg bd))"
proof (intro impI)
  assume A: "attempt \<le> maxRetries c \<and> backoff c attempt s w = (Inr (), s', w')
     \<and> fetch (api_request c m path b s') (log c (m @ '' '' @ path) JUndefined w') = (Inr r, w'')
     \<and> \<not> ok r"
  let ?e = "new_NeutronApiError (status r) (case json r of None \<Rightarrow> JObj [] | Some v \<Rightarrow> v)"
  from A have F: "rawFetch c (baseUrl c @ path) m
       [(''Authorization'', ''Bearer '' @ to_string (accessToken s')),
        (''Content-Type'', ''application/json'')]
       (if truthy b then Some (Json b) else None)
       (log c (m @ '' '' @ path) JUndefined w') = (Inr r, w'')"
    by (intro rawFetch_ok) (simp add: api_request_def)
  have R: "isRetryable ?e \<longleftrightarrow> status r = 429 \<or> 500 \<le> status r"
    by (simp add: new_NeutronApiError_def)
  have unfolded: "request_attempts c m path b attempt lastError s w =
      (if status r = 401 \<and> attempt < maxRetries c then
         request_attempts c m path b (attempt + 1) (Some ?e) (s'\<lparr>accessToken := JNull\<rparr>) w''
       else if isRetryable ?e \<and> attempt < maxRetries c then
         request_attempts c m path b (attempt + 1) (Some ?e) s' w''
       else (Inl ?e, s', w''))"
    using A F by (subst request_attempts.simps) (simp add: Let_def)
  show "(status r = 401 \<and> attempt < maxRetries c \<longrightarrow>
        request_attempts c m path b attempt lastError s w =
        request_attempts c m path b (attempt + 1) (Some ?e) (s'\<lparr>accessToken := JNull\<rparr>) w'') \<and>
     ((status r = 429 \<or> 500 \<le> status r) \<and> attempt < maxRetries c \<longrightarrow>
        request_attempts c m path b attempt lastError s w =
        request_attempts c m path b (attempt + 1) (Some ?e) s' w'') \<and>
     (status r \<noteq> 401 \<and> status r \<noteq> 429 \<and> status r < 500 \<longrightarrow>
        request_attempts c m path b attempt lastError s w = (Inl ?e, s', w'') \<and>
        \<not> isRetryable ?e \<and>
        (\<exists>cd msg bd. ?e = NeutronApiError (status r) cd msg bd))"
    using unfolded R by (auto simp: new_NeutronApiError_def)
qed

text \<open>
  The theorem at work on the first attempt of a live session: a 400 fails at once, a 401
  goes on to attempt 1 without the token, a 503 goes on to attempt 1 with it.
\<close>

theorem status_classification_witness:
  "backoff example_client 0 live_session (example_world [reply 400 (JObj [(''message'', JStr ''bad'')])])
     = (Inr (), live_session, example_world [reply 400 (JObj [(''message'', JStr ''bad'')])])
   \<and> request_attempts example_client ''GET'' ''/x'' JUndefined 0 None live_session
        (example_world [reply 400 (JObj [(''message'', JStr ''bad'')])])
      = (Inl (NeutronApiError 400 JUndefined ''bad'' (JObj [(''message'', JStr ''bad'')])),
         live_session,
         (example_world [reply 400 (JObj [(''message'', JStr ''bad'')])])
           \<lparr>now := 1010,
            trace := [Log 1000 ''GET /x'' None,
                      Fetch (api_request example_client ''GET'' ''/x'' JUndefined live_session)]\<rparr>)
   \<and> \<not> isRetryable (NeutronApiError 400 JUndefined ''bad'' (JObj [(''message'', JStr ''bad'')]))
   \<and> request_attempts example_client ''GET'' ''/x'' JUndefined 0 None live_session
        (example_world [reply 401 JNull])
      = request_attempts example_client ''GET'' ''/x'' JUndefined 1
          (Some (NeutronApiError 401 JUndefined ''API error 401'' JNull))
          (live_session\<lparr>accessToken := JNull\<rparr>)
          ((example_world [reply 401 JNull])
             \<lparr>now := 1010,
              trace := [Log 1000 ''GET /x'' None,
                        Fetch (api_request example_client ''GET'' ''/x'' JUndefined live_session)]\<rparr>)
   \<and> request_attempts example_client ''GET'' ''/x'' JUndefined 0 None live_session
        (example_world [reply 503 JNull])
      = request_attempts example_client ''GET'' ''/x'' JUndefined 1
          (Some (NeutronApiError 503 JUndefined ''API error 503'' JNull))
          live_session
          ((example_world [reply 503 JNull])
             \<lparr>now := 1010,
              trace := [Log 1000 ''GET /x'' None,
                        Fetch (api_request example_client ''GET'' ''/x'' JUndefined live_session)]\<rparr>)"
  using
    status_classification [where c = example_client and attempt = 0 and s = live_session
      and s' = live_session and m = "''GET''" and path = "''/x''" and b = JUndefined
      and lastError = None
      and w = "example_world [reply 400 (JObj [(''message'', JStr ''bad'')])]"
      and w' = "example_world [reply 400 (JObj [(''message'', JStr ''bad'')])]"
      and r = "\<lparr>status = 400, statusText = [], json = Some (JObj [(''message'', JStr ''bad'')]), has_body = True\<rparr>"
      and w'' = "(example_world [reply 400 (JObj [(''message'', JStr ''bad'')])])
           \<lparr>now := 1010,
            trace := [Log 1000 ''GET /x'' None,
                      Fetch (api_request example_client ''GET'' ''/x'' JUndefined live_session)]\<rparr>"]
    status_classification [where c = example_client and attempt = 0 and s = live_session
      and s' = live_session and m = "''GET''" and path = "''/x''" and b = JUndefined
      and lastError = None
      and w = "example_world [reply 401 JNull]"
      and w' = "example_world [reply 401 JNull]"
      and r = "\<lparr>status = 401, statusText = [], json = Some JNull, has_body = True\<rparr>"
      and w'' = "(example_world [reply 401 JNull])
           \<lparr>now := 1010,
            trace := [Log 1000 ''GET /x'' None,
                      Fetch (api_request example_client ''GET'' ''/x'' JUndefined live_session)]\<rparr>"]
    status_classification [where c = example_client and attempt = 0 and s = live_session
      and s' = live_session and m = "''GET''" and path = "''/x''" and b = JUndefined
      and lastError = None
      and w = "example_world [reply 503 JNull]"
      and w' = "example_world [reply 503 JNull]"
      and r = "\<lparr>status = 503, statusText = [], json = Some JNull, has_body = True\<rparr>"
      and w'' = "(example_world [reply 503 JNull])
           \<lparr>now := 1010,
            trace := [Log 1000 ''GET /x'' None,
                      Fetch (api_request example_client ''GET'' ''/x'' JUndefined live_session)]\<rparr>"]
  by (simp add: example_defs run_defs decimal_def digit_char_def)

subsection \<open>The retry loop: the whole run\<close>



lemma auth_request_no_api_call [simp]: "\<not> is_api_call (auth_request c)"
  by (simp add: auth_request_def is_api_call_def)

lemma api_request_api_call [simp]: "is_api_call (api_request c m p b s)"
  by (simp add: api_request_def is_api_call_def)








lemma timer_delay_1000 [simp]: "timer_delay 1000 = 1000" "timer_delay 2000 = 2000"
  by (simp_all add: timer_delay_def)




lemma attempt_schedule_2:
  "attempt_schedule 0 2 = [Attempt, Backoff 1000, Attempt, Backoff 2000, Attempt]"
  by (simp add: attempt_schedule_def upto_rec1)




subsection \<open>Polling\<close>

lemma backoff_callbacks:
  "backoff c a s w = (r, s', w') \<Longrightarrow>
   filter is_StateChange (trace w') = filter is_StateChange (trace w)"
  by (auto simp: backoff_def Let_def sleep_def emit_def split: if_splits prod.splits sum.splits
      dest!: authenticate_trace)

lemma rawFetch_callbacks:
  "rawFetch c u m hs b w = (r, w') \<Longrightarrow>
   filter is_StateChange (trace w') = filter is_StateChange (trace w)"
  by (auto dest!: rawFetch_trace)

lemma log_callbacks:
  "filter is_StateChange (trace (log c msg d w)) = filter is_StateChange (trace w)"
  by (simp add: log_def emit_def)

lemma request_attempts_callbacks:
  "request_attempts c m p b a le s w = (r, s', w') \<Longrightarrow>
   filter is_StateChange (trace w') = filter is_StateChange (trace w)"
proof (induction c m p b a le s w rule: request_attempts.induct)
  case (1 c m path b attempt lastError s w)
  note prems = "1.prems" [unfolded request_attempts.simps [of c m path b attempt lastError s w]]
  show ?case
  proof (cases "attempt \<le> maxRetries c")
    case False
    with prems show ?thesis by simp
  next
    case True
    obtain rb sb wb where B: "backoff c attempt s w = (rb, sb, wb)"
      by (cases "backoff c attempt s w") auto
    note nb = backoff_callbacks [OF B]
    show ?thesis
    proof (cases rb)
      case (Inl e)
      with prems True B nb show ?thesis by simp
    next
      case (Inr u)
      let ?w2 = "log c (m @ '' '' @ path) JUndefined wb"
      let ?hs = "[(''Authorization'', ''Bearer '' @ to_string (accessToken sb)),
                        (''Content-Type'', ''application/json'')]"
      obtain rf wf where F: "rawFetch c (baseUrl c @ path) m ?hs (if truthy b then Some (Json b) else None) ?w2 = (rf, wf)"
        by (cases "rawFetch c (baseUrl c @ path) m ?hs (if truthy b then Some (Json b) else None) ?w2") auto
      from rawFetch_callbacks [OF F] nb
      have nf: "filter is_StateChange (trace wf) = filter is_StateChange (trace w)"
        by (simp add: log_callbacks)
      show ?thesis
      proof (cases rf)
        case (Inl e)
        with prems True B Inr F nf show ?thesis by (simp add: Let_def)
      next
        case R: (Inr resp)
        show ?thesis
        proof (cases "ok resp")
          case True
          with prems \<open>attempt \<le> maxRetries c\<close> B Inr F R nf show ?thesis
            by (auto simp: Let_def split: option.splits)
        next
          case nok: False
          show ?thesis
            using prems \<open>attempt \<le> maxRetries c\<close> B Inr F R nf nok
              "1.IH"(1) [OF True B [symmetric] Inr refl refl refl refl F [symmetric] R nok refl refl]
              "1.IH"(2) [OF True B [symmetric] Inr refl refl refl refl F [symmetric] R nok refl refl]
            by (auto simp: Let_def split: if_splits)
        qed
      qed
    qed
  qed
qed

lemma transactions_get_callbacks:
  "transactions_get c txnId s w = (r, s', w') \<Longrightarrow>
   filter is_StateChange (trace w') = filter is_StateChange (trace w)"
  by (auto simp: transactions_get_def get_def request_def ensureAuth_def
      split: sum.splits prod.splits if_splits
      dest!: request_attempts_callbacks authenticate_trace)


lemma loop_callbacks:
  "filter is_StateChange
     (trace (snd (snd (waitForCompletion_loop c txnId interval tmo cb start lastState s w))))
   = filter is_StateChange (trace w)
     @ (if cb then state_changes lastState
                     (observed_states c txnId interval tmo cb start lastState s w)
        else [])"
proof (induction c txnId interval tmo cb start lastState s w
       rule: waitForCompletion_loop.induct)
  case (1 c txnId interval tmo cb start lastState s w)
  note L = waitForCompletion_loop.simps [of c txnId interval tmo cb start lastState s w]
  note O = observed_states.simps [of c txnId interval tmo cb start lastState s w]
  let ?run = "waitForCompletion_loop c txnId interval tmo cb start lastState s w"
  let ?obs = "observed_states c txnId interval tmo cb start lastState s w"
  show ?case
  proof (cases "now w - start < tmo")
    case False
    then have "snd (snd ?run) = w" "?obs = []" by (simp_all add: L O)
    then show ?thesis by (cases cb) auto
  next
    case True
    obtain r s1 w1 where G: "transactions_get c txnId s w = (r, s1, w1)"
      by (cases "transactions_get c txnId s w") auto
    note g = transactions_get_callbacks [OF G]
    show ?thesis
    proof (cases r)
      case (Inl e)
      with True G have "snd (snd ?run) = w1" "?obs = []" by (simp_all add: L O)
      with g show ?thesis by (cases cb) auto
    next
      case (Inr txn)
      show ?thesis
      proof (cases "get_prop txn ''txnState''")
        case (Inl e)
        with True G Inr have "snd (snd ?run) = w1" "?obs = []" by (simp_all add: L O)
        with g show ?thesis by (cases cb) auto
      next
        case st: (Inr st)
        let ?changed = "\<not> strict_eq st lastState"
        let ?last1 = "if ?changed then st else lastState"
        let ?w2 = "if ?changed \<and> cb then emit (StateChange st txn) w1 else w1"
        have w2: "filter is_StateChange (trace ?w2)
                  = filter is_StateChange (trace w)
                    @ (if ?changed \<and> cb then [StateChange st txn] else [])"
          using g by (simp add: emit_def)
        show ?thesis
        proof (cases "includes_state FINAL_STATES st")
          case True
          with \<open>now w - start < tmo\<close> G Inr st
          have "snd (snd ?run) = ?w2" "?obs = [(st, txn)]"
            by (simp_all add: L O Let_def)
          with w2 show ?thesis by (cases cb) auto
        next
          case False
          let ?next = "waitForCompletion_loop c txnId interval tmo cb start ?last1 s1
                         (sleep interval ?w2)"
          let ?nobs = "observed_states c txnId interval tmo cb start ?last1 s1
                         (sleep interval ?w2)"
          have IH: "filter is_StateChange (trace (snd (snd ?next)))
                    = filter is_StateChange (trace (sleep interval ?w2))
                      @ (if cb then state_changes ?last1 ?nobs else [])"
            by (rule "1.IH" [OF \<open>now w - start < tmo\<close> G [symmetric] Inr refl st refl refl refl False])
          have sl: "filter is_StateChange (trace (sleep interval ?w2))
                    = filter is_StateChange (trace ?w2)"
            by (simp add: sleep_def emit_def)
          from \<open>now w - start < tmo\<close> G Inr st False
          have "?run = ?next" "?obs = (st, txn) # ?nobs"
            by (simp_all add: L O Let_def)
          with IH sl w2 show ?thesis by (cases cb) auto
        qed
      qed
    qed
  qed
qed


lemma sanitize_uuid:
  "sanitizePathParam ''5e25d2f4-9bca-4b7a-a1ad-2cf056100cb6'' ''txnId''
   = Inr ''5e25d2f4-9bca-4b7a-a1ad-2cf056100cb6''"
  by code_simp

lemmas poll_defs =
  waitForCompletion_def waitForCompletion_loop.simps observed_def observed_states.simps
  callback_given_def with_callback_def txn_in_def FINAL_STATES_def
  transactions_get_def sanitize_uuid get_def request_attempts.simps
  request_def ensureAuth_def isTokenValid_def backoff_def log_def rawFetch_def fetch_def
  fetch_count_def emit_def sleep_def timer_delay_def ok_def Let_def
  TOKEN_REFRESH_BUFFER_MS_def

text \<open>
  C3, as stated, fails: the first poll always reports its state. The loop starts with
  the empty string as the last state seen, so a transaction that is \<open>quoted\<close> at the
  first poll, \<open>srccreated\<close> at the second and \<open>completed\<close> at the third calls
  \<open>onStateChange\<close> three times, not twice, before it is returned.
\<close>

theorem onStateChange_initial_state:
  "waitForCompletion example_client ''5e25d2f4-9bca-4b7a-a1ad-2cf056100cb6'' with_callback
       live_session
       (example_world [reply 200 (txn_in ''quoted''), reply 200 (txn_in ''srccreated''),
                       reply 200 (txn_in ''completed'')])
   = (Inr (txn_in ''completed''), live_session,
      (example_world [reply 200 (txn_in ''quoted''), reply 200 (txn_in ''srccreated''),
                       reply 200 (txn_in ''completed'')])
        \<lparr>now := 7030,
         trace :=
           [poll_line 1000, Fetch poll_request,
            StateChange (JStr ''quoted'') (txn_in ''quoted''),
            Sleep 3000,
            poll_line 4010, Fetch poll_request,
            StateChange (JStr ''srccreated'') (txn_in ''srccreated''),
            Sleep 3000,
            poll_line 7020, Fetch poll_request,
            StateChange (JStr ''completed'') (txn_in ''completed'')]\<rparr>)
   \<and> length (filter is_StateChange (trace (snd (snd
        (waitForCompletion example_client ''5e25d2f4-9bca-4b7a-a1ad-2cf056100cb6'' with_callback
           live_session
           (example_world [reply 200 (txn_in ''quoted''), reply 200 (txn_in ''srccreated''),
                           reply 200 (txn_in ''completed'')])))))) = 3"
  by (simp add: poll_defs example_defs poll_request_def poll_line_def api_request_def)

text \<open>
  C3, amended. In every run of \<open>waitForCompletion\<close> the calls of \<open>onStateChange\<close> are,
  in this order, one for each observed state that is not identical to the state observed
  immediately before it, the empty string standing before the first observation; without
  a callback there is none. A poll that repeats the state of the poll before it calls
  nothing.
\<close>

theorem onStateChange_per_change:
  "filter is_StateChange (trace (snd (snd (waitForCompletion c txnId options s w))))
   = filter is_StateChange (trace w)
     @ (if callback_given options then state_changes (JStr []) (observed c txnId options s w)
        else [])"
  using loop_callbacks
  by (simp add: waitForCompletion_def observed_def callback_given_def Let_def)


text \<open>
  The theorem at work: the polls read \<open>quoted\<close>, \<open>quoted\<close>, \<open>srccreated\<close>, \<open>completed\<close>, and
  the callback is called for \<open>quoted\<close> once, for \<open>srccreated\<close> and for \<open>completed\<close>.
\<close>

theorem onStateChange_per_change_witness:
  "callback_given with_callback
   \<and> observed example_client ''5e25d2f4-9bca-4b7a-a1ad-2cf056100cb6'' with_callback live_session
        (example_world [reply 200 (txn_in ''quoted''), reply 200 (txn_in ''quoted''),
                        reply 200 (txn_in ''srccreated''), reply 200 (txn_in ''completed'')])
      = [(JStr ''quoted'', txn_in ''quoted''), (JStr ''quoted'', txn_in ''quoted''),
         (JStr ''srccreated'', txn_in ''srccreated''), (JStr ''completed'', txn_in ''completed'')]
   \<and> filter is_StateChange (trace (snd (snd
        (waitForCompletion example_client ''5e25d2f4-9bca-4b7a-a1ad-2cf056100cb6'' with_callback
           live_session
           (example_world [reply 200 (txn_in ''quoted''), reply 200 (txn_in ''quoted''),
                           reply 200 (txn_in ''srccreated''), reply 200 (txn_in ''completed'')])))))
      = [StateChange (JStr ''quoted'') (txn_in ''quoted''),
         StateChange (JStr ''srccreated'') (txn_in ''srccreated''),
         StateChange (JStr ''completed'') (txn_in ''completed'')]"
  using onStateChange_per_change [where c = example_client
      and txnId = "''5e25d2f4-9bca-4b7a-a1ad-2cf056100cb6''" and options = with_callback
      and s = live_session
      and w = "example_world [reply 200 (txn_in ''quoted''), reply 200 (txn_in ''quoted''),
                        reply 200 (txn_in ''srccreated''), reply 200 (txn_in ''completed'')]"]
  by (simp add: poll_defs example_defs)

lemma loop_returns_final:
  "waitForCompletion_loop c txnId interval tmo cb start lastState s w = (Inr txn, s', w')
   \<Longrightarrow> includes_state FINAL_STATES (opt_prop txn ''txnState'')"
proof (induction c txnId interval tmo cb start lastState s w
       rule: waitForCompletion_loop.induct)
  case (1 c txnId interval tmo cb start lastState s w)
  note prems = "1.prems" [unfolded
      waitForCompletion_loop.simps [of c txnId interval tmo cb start lastState s w]]
  show ?case
  proof (cases "now w - start < tmo")
    case False
    with prems show ?thesis by simp
  next
    case True
    obtain r s1 w1 where G: "transactions_get c txnId s w = (r, s1, w1)"
      by (cases "transactions_get c txnId s w") auto
    show ?thesis
    proof (cases r)
      case (Inl e)
      with True G prems show ?thesis by simp
    next
      case (Inr t)
      show ?thesis
      proof (cases "get_prop t ''txnState''")
        case (Inl e)
        with True G Inr prems show ?thesis by simp
      next
        case st: (Inr st)
        show ?thesis
        proof (cases "includes_state FINAL_STATES st")
          case True
          with \<open>now w - start < tmo\<close> G Inr st prems have "txn = t"
            by (simp add: Let_def)
          with st True show ?thesis by (simp add: opt_prop_def)
        next
          case False
          from \<open>now w - start < tmo\<close> G Inr st False prems
            "1.IH" [OF \<open>now w - start < tmo\<close> G [symmetric] Inr refl st refl refl refl False]
          show ?thesis by (simp add: Let_def)
        qed
      qed
    qed
  qed
qed

text \<open>
  C5, as stated, fails: the list the loop tests has a sixth member, \<open>failed\<close>. A
  transaction observed in the state \<open>failed\<close> is returned at once, after one poll and
  no timer.
\<close>

theorem failed_is_terminal:
  "''failed'' \<notin> {''completed'', ''expired'', ''rejected'', ''error'', ''usercanceled''}
   \<and> waitForCompletion example_client ''5e25d2f4-9bca-4b7a-a1ad-2cf056100cb6'' None
       live_session (example_world [reply 200 (txn_in ''failed'')])
     = (Inr (txn_in ''failed''), live_session,
        (example_world [reply 200 (txn_in ''failed'')])
          \<lparr>now := 1010, trace := [poll_line 1000, Fetch poll_request]\<rparr>)"
  by (simp add: poll_defs example_defs poll_request_def poll_line_def api_request_def)


text \<open>
  C5, amended. The list \<open>FINAL_STATES\<close> that \<open>waitForCompletion\<close> tests holds the five
  states of \<open>FinalStates\<close> and \<open>failed\<close>; on the states of the type
  \<open>TransactionState\<close> the two agree. A poll that is answered (while the timeout has
  not passed) ends the loop with the transaction just read if its state is in the list,
  and otherwise awaits the interval and goes round again. Whatever \<open>waitForCompletion\<close>
  returns is a transaction whose state is in the list.
\<close>

theorem waitForCompletion_terminal:
  "set FINAL_STATES = set FinalStates \<union> {''failed''}
   \<and> (\<forall>x \<in> set TransactionStates. x \<in> set FINAL_STATES \<longleftrightarrow> x \<in> set FinalStates)
   \<and> (now w - start < tmo \<and> transactions_get c txnId s w = (Inr txn, s', w')
        \<and> get_prop txn ''txnState'' = Inr st
      \<longrightarrow>
        (includes_state FINAL_STATES st \<longrightarrow>
           waitForCompletion_loop c txnId interval tmo cb start lastState s w =
             (Inr txn, s',
              if \<not> strict_eq st lastState \<and> cb then emit (StateChange st txn) w' else w')) \<and>
        (\<not> includes_state FINAL_STATES st \<longrightarrow>
           waitForCompletion_loop c txnId interval tmo cb start lastState s w =
           waitForCompletion_loop c txnId interval tmo cb start
             (if \<not> strict_eq st lastState then st else lastState) s'
             (sleep interval
                (if \<not> strict_eq st lastState \<and> cb then emit (StateChange st txn) w' else w'))))
   \<and> (waitForCompletion c txnId options s w = (Inr txn', s'', w'')
      \<longrightarrow> includes_state FINAL_STATES (opt_prop txn' ''txnState''))"
proof (intro conjI impI ballI)
  show "set FINAL_STATES = set FinalStates \<union> {''failed''}"
    by (auto simp: FINAL_STATES_def FinalStates_def)
next
  fix x assume "x \<in> set TransactionStates"
  then show "x \<in> set FINAL_STATES \<longleftrightarrow> x \<in> set FinalStates"
    by (auto simp: TransactionStates_def FINAL_STATES_def FinalStates_def)
next
  assume A: "now w - start < tmo \<and> transactions_get c txnId s w = (Inr txn, s', w')
        \<and> get_prop txn ''txnState'' = Inr st"
    and F: "includes_state FINAL_STATES st"
  then show "waitForCompletion_loop c txnId interval tmo cb start lastState s w =
             (Inr txn, s',
              if \<not> strict_eq st lastState \<and> cb then emit (StateChange st txn) w' else w')"
    by (subst waitForCompletion_loop.simps) (simp add: Let_def)
next
  assume A: "now w - start < tmo \<and> transactions_get c txnId s w = (Inr txn, s', w')
        \<and> get_prop txn ''txnState'' = Inr st"
    and F: "\<not> includes_state FINAL_STATES st"
  then show "waitForCompletion_loop c txnId interval tmo cb start lastState s w =
           waitForCompletion_loop c txnId interval tmo cb start
             (if \<not> strict_eq st lastState then st else lastState) s'
             (sleep interval
                (if \<not> strict_eq st lastState \<and> cb then emit (StateChange st txn) w' else w'))"
    by (subst waitForCompletion_loop.simps) (simp add: Let_def)
next
  assume "waitForCompletion c txnId options s w = (Inr txn', s'', w'')"
  then show "includes_state FINAL_STATES (opt_prop txn' ''txnState'')"
    by (auto simp: waitForCompletion_def Let_def dest: loop_returns_final)
qed

text \<open>
  The theorem at work: \<open>expired\<close> ends the loop at the first poll, \<open>quoted\<close> sends it
  round again after 3000 ms.
\<close>

theorem waitForCompletion_terminal_witness:
  "''completed'' \<in> set TransactionStates
   \<and> (''completed'' \<in> set FINAL_STATES) = (''completed'' \<in> set FinalStates)
   \<and> ''quoted'' \<in> set TransactionStates
   \<and> (''quoted'' \<in> set FINAL_STATES) = (''quoted'' \<in> set FinalStates)
   \<and> transactions_get example_client ''5e25d2f4-9bca-4b7a-a1ad-2cf056100cb6'' live_session
         (example_world [reply 200 (txn_in ''expired'')])
       = (Inr (txn_in ''expired''), live_session,
          (example_world [reply 200 (txn_in ''expired'')])
            \<lparr>now := 1010, trace := [poll_line 1000, Fetch poll_request]\<rparr>)
   \<and> includes_state FINAL_STATES (JStr ''expired'')
   \<and> waitForCompletion_loop example_client ''5e25d2f4-9bca-4b7a-a1ad-2cf056100cb6''
         3000 300000 False 1000 (JStr []) live_session
         (example_world [reply 200 (txn_in ''expired'')])
       = (Inr (txn_in ''expired''), live_session,
          (example_world [reply 200 (txn_in ''expired'')])
            \<lparr>now := 1010, trace := [poll_line 1000, Fetch poll_request]\<rparr>)
   \<and> transactions_get example_client ''5e25d2f4-9bca-4b7a-a1ad-2cf056100cb6'' live_session
         (example_world [reply 200 (txn_in ''quoted'')])
       = (Inr (txn_in ''quoted''), live_session,
          (example_world [reply 200 (txn_in ''quoted'')])
            \<lparr>now := 1010, trace := [poll_line 1000, Fetch poll_request]\<rparr>)
   \<and> \<not> includes_state FINAL_STATES (JStr ''quoted'')
   \<and> waitForCompletion_loop example_client ''5e25d2f4-9bca-4b7a-a1ad-2cf056100cb6''
         3000 300000 False 1000 (JStr []) live_session
         (example_world [reply 200 (txn_in ''quoted'')])
       = waitForCompletion_loop example_client ''5e25d2f4-9bca-4b7a-a1ad-2cf056100cb6''
           3000 300000 False 1000 (JStr ''quoted'') live_session
           ((example_world [reply 200 (txn_in ''quoted'')])
              \<lparr>now := 4010, trace := [poll_line 1000, Fetch poll_request, Sleep 3000]\<rparr>)
   \<and> waitForCompletion example_client ''5e25d2f4-9bca-4b7a-a1ad-2cf056100cb6'' None
         live_session (example_world [reply 200 (txn_in ''expired'')])
       = (Inr (txn_in ''expired''), live_session,
          (example_world [reply 200 (txn_in ''expired'')])
            \<lparr>now := 1010, trace := [poll_line 1000, Fetch poll_request]\<rparr>)
   \<and> includes_state FINAL_STATES (opt_prop (txn_in ''expired'') ''txnState'')"
  using
    waitForCompletion_terminal [where c = example_client
      and txnId = "''5e25d2f4-9bca-4b7a-a1ad-2cf056100cb6''" and s = live_session
      and w = "example_world [reply 200 (txn_in ''expired'')]"
      and start = 1000 and tmo = 300000 and interval = 3000 and cb = False
      and lastState = "JStr []" and txn = "txn_in ''expired''" and s' = live_session
      and w' = "(example_world [reply 200 (txn_in ''expired'')])
            \<lparr>now := 1010, trace := [poll_line 1000, Fetch poll_request]\<rparr>"
      and st = "JStr ''expired''" and options = None
      and txn' = "txn_in ''expired''" and s'' = live_session
      and w'' = "(example_world [reply 200 (txn_in ''expired'')])
            \<lparr>now := 1010, trace := [poll_line 1000, Fetch poll_request]\<rparr>"]
    waitForCompletion_terminal [where c = example_client
      and txnId = "''5e25d2f4-9bca-4b7a-a1ad-2cf056100cb6''" and s = live_session
      and w = "example_world [reply 200 (txn_in ''quoted'')]"
      and start = 1000 and tmo = 300000 and interval = 3000 and cb = False
      and lastState = "JStr []" and txn = "txn_in ''quoted''" and s' = live_session
      and w' = "(example_world [reply 200 (txn_in ''quoted'')])
            \<lparr>now := 1010, trace := [poll_line 1000, Fetch poll_request]\<rparr>"
      and st = "JStr ''quoted''"]
  by (simp add: TransactionStates_def FinalStates_def FINAL_STATES_def
      transactions_get_def sanitize_uuid get_def request_attempts.simps
      request_def ensureAuth_def isTokenValid_def backoff_def log_def rawFetch_def fetch_def
      fetch_count_def emit_def sleep_def timer_delay_def ok_def Let_def
      TOKEN_REFRESH_BUFFER_MS_def waitForCompletion_def
      example_defs poll_request_def poll_line_def api_request_def txn_in_def opt_prop_def)

end
